theory Spec2Isabelle
  imports Complex_Main
begin

section \<open>Conventions of the embedding\<close>

text \<open>
  Python floats (prices, quantities, profit and loss) are modelled as \<^typ>\<open>real\<close>, so the
  arithmetic below is exact. Python strings and byte strings are both \<^typ>\<open>string\<close>; a SQL
  column that may be NULL, and a Python value that may be \<open>None\<close>, is an \<^typ>\<open>'a option\<close>.
  Every exception of the source is a value of type \<open>error\<close>; a function that may raise
  returns \<open>error + 'a\<close>, and a \<open>try ... except Exception\<close> block is the case distinction on
  that sum. The database is an in-memory record of tables (lists of rows), the clock that
  \<open>CURRENT_TIMESTAMP\<close> reads is a field of it, and the logger is a list of entries, newest
  last. The connection to the database is taken to succeed. The exchange library (ccxt)
  and the Fernet cipher are not part of the repository: their answers are parameters of
  the model.
\<close>

type_synonym bytes = string

datatype error =
    AttributeError string
  | TypeError string
  | KeyError string
  | ValueError string
  | InvalidToken
  | ZeroDivisionError
  | ExchangeError string
  | OSError string

datatype log_entry =
    LogInfo string
  | LogError string error

section \<open>The store (database/models.py)\<close>

record signal_row =
  s_id :: nat
  s_symbol :: string
  s_signal_type :: string
  s_entry_price :: real
  s_stop_loss :: "real option"
  s_take_profit :: "real option"
  s_leverage :: "int option"
  s_position_size_percent :: "real option"
  s_status :: string
  s_expires_at :: "nat option"
  s_created_by :: nat
  s_created_at :: nat

record trade_row =
  t_id :: nat
  t_signal_id :: nat
  t_user_id :: nat
  t_exchange_name :: string
  t_symbol :: string
  t_side :: string
  t_quantity :: real
  t_entry_price :: real
  t_current_price :: "real option"
  t_pnl :: "real option"
  t_status :: string
  t_executed_at :: nat
  t_closed_at :: "nat option"

record user_row =
  u_id :: nat
  u_telegram_id :: nat

record subscription_row =
  sub_user_id :: nat
  sub_is_subscribed :: bool
  sub_auto_trade :: bool
  sub_max_position_size :: real

record exchange_row =
  e_id :: nat
  e_user_id :: nat
  e_exchange_name :: string
  e_api_key_encrypted :: bytes
  e_api_secret_encrypted :: bytes
  e_passphrase_encrypted :: "bytes option"
  e_is_active :: bool
  e_auto_trade :: "bool option"
  e_leverage :: "int option"
  e_position_size_percent :: "real option"

record store =
  users :: "user_row list"
  subscriptions :: "subscription_row list"
  exchanges :: "exchange_row list"
  signals :: "signal_row list"
  trade_executions :: "trade_row list"
  clock :: nat

text \<open>The dictionary that \<open>TradeModel.get_open_trades\<close> builds for one row of the join of
  \<open>trade_executions\<close> with \<open>signals\<close>.\<close>

record open_trade =
  ot_id :: nat
  ot_signal_id :: nat
  ot_user_id :: nat
  ot_exchange_name :: string
  ot_symbol :: string
  ot_side :: string
  ot_quantity :: real
  ot_entry_price :: real
  ot_current_price :: "real option"
  ot_pnl :: "real option"
  ot_stop_loss :: "real option"
  ot_take_profit :: "real option"

text \<open>\<open>SELECT ... FROM trade_executions t JOIN signals s ON t.signal_id = s.id
  WHERE t.status = 'open' ORDER BY t.executed_at DESC\<close>.\<close>

definition join_trade :: "trade_row \<Rightarrow> signal_row \<Rightarrow> open_trade" where
  "join_trade t s =
     \<lparr>ot_id = t_id t, ot_signal_id = t_signal_id t, ot_user_id = t_user_id t,
      ot_exchange_name = t_exchange_name t, ot_symbol = t_symbol t, ot_side = t_side t,
      ot_quantity = t_quantity t, ot_entry_price = t_entry_price t,
      ot_current_price = t_current_price t, ot_pnl = t_pnl t,
      ot_stop_loss = s_stop_loss s, ot_take_profit = s_take_profit s\<rparr>"

definition get_open_trades :: "store \<Rightarrow> open_trade list" where
  "get_open_trades st =
     map snd (rev (sort_key fst
       (concat (map (\<lambda>t. map (\<lambda>s. (t_executed_at t, join_trade t s))
                               (filter (\<lambda>s. s_id s = t_signal_id t) (signals st)))
                    (filter (\<lambda>t. t_status t = ''open'') (trade_executions st))))))"


text \<open>\<open>UPDATE trade_executions SET pnl = ?, current_price = ? WHERE id = ?\<close>.\<close>

definition TradeModel_update_trade_pnl :: "nat \<Rightarrow> real \<Rightarrow> real \<Rightarrow> store \<Rightarrow> store" where
  "TradeModel_update_trade_pnl trade_id pnl current_price st =
     st\<lparr>trade_executions :=
          map (\<lambda>r. if t_id r = trade_id
                   then r\<lparr>t_pnl := Some pnl, t_current_price := Some current_price\<rparr>
                   else r)
              (trade_executions st)\<rparr>"

text \<open>\<open>UPDATE trade_executions SET status = 'closed', current_price = ?, pnl = ?,
  closed_at = CURRENT_TIMESTAMP WHERE id = ?\<close>. The parameter \<open>reason\<close> is not used by the
  statement.\<close>

definition TradeModel_close_trade :: "nat \<Rightarrow> real \<Rightarrow> real \<Rightarrow> string \<Rightarrow> store \<Rightarrow> store" where
  "TradeModel_close_trade trade_id close_price final_pnl reason st =
     st\<lparr>trade_executions :=
          map (\<lambda>r. if t_id r = trade_id
                   then r\<lparr>t_status := ''closed'', t_current_price := Some close_price,
                          t_pnl := Some final_pnl, t_closed_at := Some (clock st)\<rparr>
                   else r)
              (trade_executions st)\<rparr>"


text \<open>\<open>SELECT ... FROM signals WHERE status = 'pending' AND expires_at > CURRENT_TIMESTAMP
  ORDER BY created_at ASC\<close>. The dictionary built for a row adds the key \<open>action\<close> with the
  value of \<open>signal_type\<close>; the row itself stands for that dictionary.\<close>

definition get_pending_signals :: "store \<Rightarrow> signal_row list" where
  "get_pending_signals st =
     sort_key s_created_at
       (filter (\<lambda>s. s_status s = ''pending'' \<and>
                    (case s_expires_at s of None \<Rightarrow> False | Some t \<Rightarrow> clock st < t))
               (signals st))"

definition action :: "signal_row \<Rightarrow> string" where
  "action s = s_signal_type s"

text \<open>The class \<open>SignalModel\<close> defines \<open>mark_signal_processed\<close> twice; the later definition
  is the one bound: \<open>UPDATE signals SET status = 'processed' WHERE id = ?\<close>.\<close>

definition mark_signal_processed :: "nat \<Rightarrow> store \<Rightarrow> store" where
  "mark_signal_processed signal_id st =
     st\<lparr>signals :=
          map (\<lambda>r. if s_id r = signal_id then r\<lparr>s_status := ''processed''\<rparr> else r)
              (signals st)\<rparr>"

text \<open>The dictionary of \<open>UserModel.get_subscribed_users\<close>, a \<open>SELECT DISTINCT\<close> over the join
  of users, subscriptions and exchanges.\<close>

record subscriber =
  sr_id :: nat
  sr_telegram_id :: nat
  sr_auto_trade :: bool
  sr_max_position_size :: real

definition get_subscribed_users :: "store \<Rightarrow> subscriber list" where
  "get_subscribed_users st =
     remdups
       (concat (map (\<lambda>u.
          concat (map (\<lambda>s.
            map (\<lambda>e. \<lparr>sr_id = u_id u, sr_telegram_id = u_telegram_id u,
                       sr_auto_trade = sub_auto_trade s,
                       sr_max_position_size = sub_max_position_size s\<rparr>)
                (filter (\<lambda>e. e_user_id e = u_id u \<and> e_is_active e) (exchanges st)))
            (filter (\<lambda>s. sub_user_id s = u_id u \<and> sub_is_subscribed s) (subscriptions st))))
          (users st)))"

text \<open>\<open>SELECT ... FROM exchanges WHERE user_id = ? AND is_active = 1\<close>.\<close>

definition get_user_exchanges :: "nat \<Rightarrow> store \<Rightarrow> exchange_row list" where
  "get_user_exchanges user_id st =
     filter (\<lambda>e. e_user_id e = user_id \<and> e_is_active e) (exchanges st)"

text \<open>\<open>TradeModel.create_trade\<close>: \<open>INSERT INTO trade_executions (...) SELECT ?, ?,
  e.exchange_name, ?, ?, ?, ? FROM exchanges e WHERE e.id = ?\<close>. One row is inserted for
  each exchange row with that id; the columns left out take their defaults.\<close>

definition next_trade_id :: "store \<Rightarrow> nat" where
  "next_trade_id st = Suc (fold max (map t_id (trade_executions st)) 0)"

text \<open>\<open>str.upper\<close> on ASCII letters.\<close>

definition upper_char :: "char \<Rightarrow> char" where
  "upper_char c =
     (case map_of (zip ''abcdefghijklmnopqrstuvwxyz'' ''ABCDEFGHIJKLMNOPQRSTUVWXYZ'') c of
        None \<Rightarrow> c
      | Some u \<Rightarrow> u)"

definition upper :: "string \<Rightarrow> string" where
  "upper s = map upper_char s"

fun insert_trades ::
  "nat \<Rightarrow> nat \<Rightarrow> string \<Rightarrow> string \<Rightarrow> real \<Rightarrow> real \<Rightarrow> exchange_row list \<Rightarrow> store \<Rightarrow> store"
where
  "insert_trades signal_id user_id symbol side quantity entry_price [] st = st"
| "insert_trades signal_id user_id symbol side quantity entry_price (e # es) st =
     insert_trades signal_id user_id symbol side quantity entry_price es
       (st\<lparr>trade_executions := trade_executions st @
              [\<lparr>t_id = next_trade_id st, t_signal_id = signal_id, t_user_id = user_id,
                t_exchange_name = e_exchange_name e, t_symbol = symbol, t_side = side,
                t_quantity = quantity, t_entry_price = entry_price,
                t_current_price = None, t_pnl = Some 0, t_status = ''open'',
                t_executed_at = clock st, t_closed_at = None\<rparr>]\<rparr>)"

definition create_trade ::
  "nat \<Rightarrow> nat \<Rightarrow> nat \<Rightarrow> string \<Rightarrow> string \<Rightarrow> real \<Rightarrow> real \<Rightarrow> store \<Rightarrow> store"
where
  "create_trade user_id exchange_id signal_id symbol act entry_price quantity st =
     (let side = (if upper act \<in> set [''LONG'', ''BUY''] then ''BUY'' else ''SELL'')
      in insert_trades signal_id user_id symbol side quantity entry_price
           (filter (\<lambda>e. e_id e = exchange_id) (exchanges st)) st)"

section \<open>The world: store, logger, and the calls made to the exchanges\<close>

record client =
  c_exchange_name :: string
  c_api_key :: string
  c_secret :: string
  c_password :: "string option"

datatype exchange_call =
    FetchBalance client
  | SetLeverage client int string
  | CreateMarketOrder client string string real
  | CreateStopOrder client string string real real
  | CreateLimitOrder client string string real real
  | FetchTicker string string

record world =
  db :: store
  logged :: "log_entry list"
  calls :: "exchange_call list"

definition log_error :: "string \<Rightarrow> error \<Rightarrow> world \<Rightarrow> world" where
  "log_error msg e w = w\<lparr>logged := logged w @ [LogError msg e]\<rparr>"

definition log_info :: "string \<Rightarrow> world \<Rightarrow> world" where
  "log_info msg w = w\<lparr>logged := logged w @ [LogInfo msg]\<rparr>"

definition called :: "exchange_call \<Rightarrow> world \<Rightarrow> world" where
  "called c w = w\<lparr>calls := calls w @ [c]\<rparr>"

text \<open>What the exchange library answers. An order carries its id and, possibly, its fill
  price; a balance answer maps a currency to its \<open>free\<close>/\<open>used\<close>/\<open>total\<close> entries; a ticker
  carries \<open>last\<close>, which may be \<open>None\<close>. An answer is what the awaited call of the source
  (\<open>await exchange.fetch_ticker(symbol)\<close>) yields, an exception included. The module
  imports the synchronous \<open>ccxt\<close>, whose methods return their result and not an awaitable:
  awaiting it raises \<open>TypeError\<close>, and that is then the answer to every request. An answer
  is a function of the request: the same request is answered in the same way throughout
  one polling cycle. Where the
  source tests an optional number for truth (\<open>if current_price:\<close>), \<open>None\<close> and \<open>0.0\<close> are
  false.\<close>

record order =
  order_id :: string
  order_price :: "real option"

type_synonym balance_response = "(string \<times> (string \<times> real option) list) list"

record ccxt =
  fetch_balance :: "client \<Rightarrow> error + balance_response"
  set_leverage_api :: "client \<Rightarrow> int \<Rightarrow> string \<Rightarrow> error + unit"
  create_market_order :: "client \<Rightarrow> string \<Rightarrow> string \<Rightarrow> real \<Rightarrow> error + order"
  create_order :: "client \<Rightarrow> string \<Rightarrow> string \<Rightarrow> real \<Rightarrow> real \<Rightarrow> error + unit"
  create_limit_order :: "client \<Rightarrow> string \<Rightarrow> string \<Rightarrow> real \<Rightarrow> real \<Rightarrow> error + unit"
  fetch_ticker :: "string \<Rightarrow> string \<Rightarrow> error + real option"

definition supported_exchanges :: "string list" where
  "supported_exchanges = [''binance'', ''bybit'', ''okx'', ''bitget'', ''mexc'']"


section \<open>The credential vault (exchanges/auth\_manager.py)\<close>

text \<open>The Fernet object built from the derived key. Encryption draws a fresh initialisation
  vector and a timestamp, the first argument here; decryption raises \<open>InvalidToken\<close> on a
  token it does not accept. \<open>str.encode\<close> and \<open>bytes.decode\<close> are the identity, strings
  being held in their encoded form.\<close>

record fernet =
  fernet_encrypt :: "nat \<Rightarrow> bytes \<Rightarrow> bytes"
  fernet_decrypt :: "bytes \<Rightarrow> error + bytes"

definition encode :: "string \<Rightarrow> bytes" where
  "encode s = s"

definition decode :: "bytes \<Rightarrow> string" where
  "decode b = b"

definition encrypt_credentials ::
  "fernet \<Rightarrow> nat \<times> nat \<times> nat \<Rightarrow> string \<Rightarrow> string \<Rightarrow> string \<Rightarrow> bytes \<times> bytes \<times> bytes"
where
  "encrypt_credentials F ivs api_key api_secret passphrase =
     (case ivs of (iv1, iv2, iv3) \<Rightarrow>
        let encrypted_key = fernet_encrypt F iv1 (encode api_key);
            encrypted_secret = fernet_encrypt F iv2 (encode api_secret);
            encrypted_passphrase =
              (if passphrase \<noteq> [] then fernet_encrypt F iv3 (encode passphrase) else [])
        in (encrypted_key, encrypted_secret, encrypted_passphrase))"

definition decrypt_credentials ::
  "fernet \<Rightarrow> bytes \<Rightarrow> bytes \<Rightarrow> bytes option \<Rightarrow> world
     \<Rightarrow> (error + string \<times> string \<times> string) \<times> world"
where
  "decrypt_credentials F encrypted_key encrypted_secret encrypted_passphrase w =
     (case fernet_decrypt F encrypted_key of
        Inl e \<Rightarrow> (Inl e, log_error ''Decryption error'' e w)
      | Inr k \<Rightarrow>
         (case fernet_decrypt F encrypted_secret of
            Inl e \<Rightarrow> (Inl e, log_error ''Decryption error'' e w)
          | Inr s \<Rightarrow>
             (case encrypted_passphrase of
                None \<Rightarrow> (Inr (decode k, decode s, []), w)
              | Some ep \<Rightarrow>
                 if ep = [] then (Inr (decode k, decode s, []), w)
                 else (case fernet_decrypt F ep of
                         Inl e \<Rightarrow> (Inl e, log_error ''Decryption error'' e w)
                       | Inr p \<Rightarrow> (Inr (decode k, decode s, decode p), w)))))"

text \<open>The attributes of an \<open>ExchangeAuthManager\<close> instance: the two that \<open>__init__\<close> sets and
  the methods of the class. Reading any other attribute raises \<open>AttributeError\<close>.\<close>

definition auth_manager_attributes :: "string list" where
  "auth_manager_attributes =
     [''fernet'', ''auth_sessions'', ''__init__'', ''_setup_encryption'',
      ''encrypt_credentials'', ''decrypt_credentials'', ''generate_oauth_url'',
      ''_generate_state_token'', ''validate_state_token'', ''cleanup_expired_sessions'',
      ''handle_oauth_callback'', ''_kucoin_exchange_code'', ''_bybit_exchange_code'',
      ''_okx_exchange_code'', ''_store_oauth_tokens'', ''refresh_oauth_token'',
      ''_refresh_kucoin_token'', ''_refresh_bybit_token'', ''_refresh_okx_token'',
      ''get_oauth_token'']"

definition auth_manager_getattr :: "string \<Rightarrow> error + unit" where
  "auth_manager_getattr name =
     (if name \<in> set auth_manager_attributes then Inr () else Inl (AttributeError name))"

section \<open>The exchange adapter (exchanges/futures\_trader.py)\<close>

text \<open>The attributes of the class \<open>Config\<close> (config/settings.py): the names its body
  assigns, and its one method. \<open>get_exchange_client\<close> reads \<open>Config.TESTNET_MODE\<close> while
  it builds the dictionary of options for the client of a supported exchange, before the
  client is constructed; the \<open>except\<close> of the method logs the exception and raises it
  again.\<close>

definition config_attributes :: "string list" where
  "config_attributes =
     [''BOT_TOKEN'', ''ADMIN_ID'', ''ENCRYPTION_KEY'', ''WEBHOOK_URL'', ''WEBHOOK_PORT'',
      ''WEBHOOK_PATH'', ''OAUTH_CALLBACK_URL'', ''SUPPORTED_EXCHANGES'', ''DEFAULT_LEVERAGE'',
      ''MAX_LEVERAGE'', ''DEFAULT_POSITION_SIZE_PERCENT'', ''MAX_POSITION_SIZE_PERCENT'',
      ''USE_STOP_LOSS'', ''USE_TAKE_PROFIT'', ''DB_PATH'', ''LOG_LEVEL'', ''LOG_FORMAT'',
      ''LOG_FILE'', ''SIGNAL_EXPIRY_HOURS'', ''NOTIFY_ON_TRADE'', ''NOTIFY_ON_ERROR'',
      ''validate'']"

definition config_getattr :: "string \<Rightarrow> error + unit" where
  "config_getattr name =
     (if name \<in> set config_attributes then Inr () else Inl (AttributeError name))"

definition get_exchange_client ::
  "string \<Rightarrow> string \<Rightarrow> string \<Rightarrow> string \<Rightarrow> world \<Rightarrow> (error + client) \<times> world"
where
  "get_exchange_client exchange_name api_key api_secret passphrase w =
     (if exchange_name \<in> set [''binance'', ''bybit'', ''okx'', ''bitget'', ''mexc''] then
        (case config_getattr ''TESTNET_MODE'' of
           Inl e \<Rightarrow> (Inl e, log_error ''Error creating exchange client'' e w)
         | Inr _ \<Rightarrow>
            (Inr \<lparr>c_exchange_name = exchange_name, c_api_key = api_key,
                   c_secret = api_secret,
                   c_password = (if exchange_name = ''okx'' \<or> exchange_name = ''bitget''
                                 then Some passphrase else None)\<rparr>, w))
      else (Inl (ValueError (''Unsupported exchange: '' @ exchange_name)),
            log_error ''Error creating exchange client''
              (ValueError (''Unsupported exchange: '' @ exchange_name)) w))"

text \<open>\<open>get_balance\<close>: the \<open>free\<close> entry of \<open>USDT\<close> when the answer has a \<open>USDT\<close> entry, else
  \<open>0.0\<close>; any exception is logged and \<open>0.0\<close> is returned.\<close>

definition get_balance :: "ccxt \<Rightarrow> client \<Rightarrow> world \<Rightarrow> (error + real option) \<times> world" where
  "get_balance X exchange w =
     (let w1 = called (FetchBalance exchange) w in
      case fetch_balance X exchange of
        Inl e \<Rightarrow> (Inr (Some 0), log_error ''Error getting balance'' e w1)
      | Inr balance \<Rightarrow>
         (case map_of balance ''USDT'' of
            None \<Rightarrow> (Inr (Some 0), w1)
          | Some usdt \<Rightarrow>
             (case map_of usdt ''free'' of
                None \<Rightarrow> (Inr (Some 0), log_error ''Error getting balance'' (KeyError ''free'') w1)
              | Some v \<Rightarrow> (Inr v, w1))))"

definition set_leverage :: "ccxt \<Rightarrow> client \<Rightarrow> string \<Rightarrow> int \<Rightarrow> world \<Rightarrow> world" where
  "set_leverage X exchange symbol leverage w =
     (let w1 = called (SetLeverage exchange leverage symbol) w in
      case set_leverage_api X exchange leverage symbol of
        Inl e \<Rightarrow> log_error ''Error setting leverage'' e w1
      | Inr _ \<Rightarrow> w1)"

definition set_stop_loss ::
  "ccxt \<Rightarrow> client \<Rightarrow> string \<Rightarrow> string \<Rightarrow> real \<Rightarrow> real \<Rightarrow> world \<Rightarrow> world"
where
  "set_stop_loss X exchange symbol side quantity stop_price w =
     (let stop_side = (if side = ''buy'' then ''sell'' else ''buy'');
          w1 = called (CreateStopOrder exchange symbol stop_side quantity stop_price) w in
      case create_order X exchange symbol stop_side quantity stop_price of
        Inl e \<Rightarrow> log_error ''Error setting stop loss'' e w1
      | Inr _ \<Rightarrow> w1)"

definition set_take_profit ::
  "ccxt \<Rightarrow> client \<Rightarrow> string \<Rightarrow> string \<Rightarrow> real \<Rightarrow> real \<Rightarrow> world \<Rightarrow> world"
where
  "set_take_profit X exchange symbol side quantity take_profit_price w =
     (let tp_side = (if side = ''buy'' then ''sell'' else ''buy'');
          w1 = called (CreateLimitOrder exchange symbol tp_side quantity take_profit_price) w in
      case create_limit_order X exchange symbol tp_side quantity take_profit_price of
        Inl e \<Rightarrow> log_error ''Error setting take profit'' e w1
      | Inr _ \<Rightarrow> w1)"

text \<open>\<open>get_current_price\<close> builds a client without credentials for one of the five
  supported exchanges and returns \<open>ticker['last']\<close>; for any other exchange name, and on any
  exception (which is logged), it returns \<open>None\<close>.\<close>

definition get_current_price ::
  "ccxt \<Rightarrow> string \<Rightarrow> string \<Rightarrow> world \<Rightarrow> real option \<times> world"
where
  "get_current_price X exchange_name symbol w =
     (if exchange_name \<in> set supported_exchanges then
        (let w1 = called (FetchTicker exchange_name symbol) w in
         case fetch_ticker X exchange_name symbol of
           Inl e \<Rightarrow> (None, log_error ''Error getting current price'' e w1)
         | Inr last_price \<Rightarrow> (last_price, w1))
      else (None, w))"

text \<open>The dictionaries returned by \<open>execute_trade\<close> and \<open>close_position\<close>: a key that a
  dictionary does not have is \<open>None\<close>.\<close>

record trade_result =
  tr_success :: bool
  tr_order_id :: "string option"
  tr_entry_price :: "real option"
  tr_quantity :: "real option"
  tr_side :: "string option"
  tr_error :: "error option"

record close_result =
  cr_success :: bool
  cr_close_price :: "real option"
  cr_pnl :: "real option"
  cr_error :: "error option"

definition execute_trade_body ::
  "fernet \<Rightarrow> ccxt \<Rightarrow> exchange_row \<Rightarrow> signal_row \<Rightarrow> world \<Rightarrow> (error + trade_result) \<times> world"
where
  "execute_trade_body F X exchange_config signal w =
     (case decrypt_credentials F (e_api_key_encrypted exchange_config)
             (e_api_secret_encrypted exchange_config)
             (e_passphrase_encrypted exchange_config) w of
        (Inl e, w1) \<Rightarrow> (Inl e, w1)
      | (Inr (api_key, api_secret, passphrase), w1) \<Rightarrow>
         (case get_exchange_client (e_exchange_name exchange_config)
                 api_key api_secret passphrase w1 of
            (Inl e, w2) \<Rightarrow> (Inl e, w2)
          | (Inr exchange, w2) \<Rightarrow>
             (case get_balance X exchange w2 of
                (Inl e, w3) \<Rightarrow> (Inl e, w3)
              | (Inr balance, w3) \<Rightarrow>
                 (case (balance, e_position_size_percent exchange_config, s_leverage signal) of
                    (Some b, Some position_size_percent, Some leverage) \<Rightarrow>
                      if s_entry_price signal = 0 then (Inl ZeroDivisionError, w3)
                      else
                        (let position_value =
                               b * (position_size_percent / 100) * real_of_int leverage;
                             quantity = position_value / s_entry_price signal;
                             w4 = set_leverage X exchange (s_symbol signal) leverage w3;
                             side = (if upper (action signal) \<in> set [''BUY'', ''LONG'']
                                     then ''buy'' else ''sell'');
                             w5 = called (CreateMarketOrder exchange (s_symbol signal)
                                            side quantity) w4
                         in case create_market_order X exchange (s_symbol signal)
                                   side quantity of
                              Inl e \<Rightarrow> (Inl e, w5)
                            | Inr ord \<Rightarrow>
                               (let w6 = (case s_stop_loss signal of
                                            None \<Rightarrow> w5
                                          | Some sl \<Rightarrow>
                                             if sl = 0 then w5
                                             else set_stop_loss X exchange (s_symbol signal)
                                                    side quantity sl w5);
                                    w7 = (case s_take_profit signal of
                                            None \<Rightarrow> w6
                                          | Some tp \<Rightarrow>
                                             if tp = 0 then w6
                                             else set_take_profit X exchange (s_symbol signal)
                                                    side quantity tp w6)
                                in (Inr \<lparr>tr_success = True,
                                         tr_order_id = Some (order_id ord),
                                         tr_entry_price =
                                           Some (case order_price ord of
                                                   None \<Rightarrow> s_entry_price signal
                                                 | Some p \<Rightarrow>
                                                    if p = 0 then s_entry_price signal else p),
                                         tr_quantity = Some quantity,
                                         tr_side = Some side,
                                         tr_error = None\<rparr>, w7)))
                  | _ \<Rightarrow> (Inl (TypeError ''unsupported operand type(s)''), w3)))))"

definition execute_trade ::
  "fernet \<Rightarrow> ccxt \<Rightarrow> exchange_row \<Rightarrow> signal_row \<Rightarrow> subscriber \<Rightarrow> world
     \<Rightarrow> trade_result \<times> world"
where
  "execute_trade F X exchange_config signal user w =
     (case execute_trade_body F X exchange_config signal w of
        (Inr result, w1) \<Rightarrow> (result, w1)
      | (Inl e, w1) \<Rightarrow>
         (\<lparr>tr_success = False, tr_order_id = None, tr_entry_price = None,
           tr_quantity = None, tr_side = None, tr_error = Some e\<rparr>,
          log_error ''Error executing trade'' e w1))"

text \<open>\<open>FuturesTrader.close_position\<close>: the body of the \<open>try\<close> is a single \<open>return\<close> of a
  constant dictionary.\<close>

definition FuturesTrader_close_position :: "open_trade \<Rightarrow> close_result" where
  "FuturesTrader_close_position trade =
     \<lparr>cr_success = True, cr_close_price = Some 0, cr_pnl = Some 0, cr_error = None\<rparr>"

text \<open>\<open>FuturesTrader.execute_signal_trade\<close>: the first statement of the \<open>try\<close> reads
  \<open>self.auth_manager.db\<close>; the loop over the user's exchanges follows it.\<close>

fun execute_user_exchanges ::
  "fernet \<Rightarrow> ccxt \<Rightarrow> subscriber \<Rightarrow> signal_row \<Rightarrow> exchange_row list \<Rightarrow> world \<Rightarrow> world"
where
  "execute_user_exchanges F X user signal [] w = w"
| "execute_user_exchanges F X user signal (exchange_config # rest) w =
     (if e_auto_trade exchange_config = Some True then
        (case execute_trade F X exchange_config signal user w of
           (result, w1) \<Rightarrow>
             execute_user_exchanges F X user signal rest
               (if tr_success result then log_info ''Signal executed for user'' w1 else w1))
      else execute_user_exchanges F X user signal rest w)"

definition FuturesTrader_execute_signal_trade ::
  "fernet \<Rightarrow> ccxt \<Rightarrow> subscriber \<Rightarrow> signal_row \<Rightarrow> world \<Rightarrow> world"
where
  "FuturesTrader_execute_signal_trade F X user signal w =
     (case auth_manager_getattr ''db'' of
        Inl e \<Rightarrow> log_error ''Error executing signal trade'' e w
      | Inr _ \<Rightarrow>
         execute_user_exchanges F X user signal (get_user_exchanges (sr_id user) (db w)) w)"


section \<open>The position monitoring engine (trading/auto\_trader.py)\<close>

definition AutoTrader_close_position :: "open_trade \<Rightarrow> string \<Rightarrow> world \<Rightarrow> world" where
  "AutoTrader_close_position trade reason w =
     (let result = FuturesTrader_close_position trade in
      if cr_success result then
        (case cr_close_price result of
           None \<Rightarrow> log_error ''Error closing position'' (KeyError ''close_price'') w
         | Some cp \<Rightarrow>
            (case cr_pnl result of
               None \<Rightarrow> log_error ''Error closing position'' (KeyError ''pnl'') w
             | Some p \<Rightarrow>
                log_info (''Position closed: '' @ ot_symbol trade @ '' - '' @ reason)
                  (w\<lparr>db := TradeModel_close_trade (ot_id trade) cp p reason (db w)\<rparr>)))
      else w)"

definition AutoTrader_update_trade_pnl :: "ccxt \<Rightarrow> open_trade \<Rightarrow> world \<Rightarrow> world" where
  "AutoTrader_update_trade_pnl X trade w =
     (case get_current_price X (ot_exchange_name trade) (ot_symbol trade) w of
        (None, w1) \<Rightarrow> w1
      | (Some current_price, w1) \<Rightarrow>
         if current_price = 0 then w1
         else
           (let pnl = (if upper (ot_side trade) = ''LONG''
                       then (current_price - ot_entry_price trade) * ot_quantity trade
                       else (ot_entry_price trade - current_price) * ot_quantity trade)
            in w1\<lparr>db := TradeModel_update_trade_pnl (ot_id trade) pnl current_price (db w1)\<rparr>))"

definition monitor_positions :: "ccxt \<Rightarrow> world \<Rightarrow> world" where
  "monitor_positions X w = fold (AutoTrader_update_trade_pnl X) (get_open_trades (db w)) w"

text \<open>The body of the loop of \<open>check_stop_losses\<close> for one trade.\<close>

definition stop_loss_step :: "ccxt \<Rightarrow> open_trade \<Rightarrow> world \<Rightarrow> world" where
  "stop_loss_step X trade w =
     (case ot_stop_loss trade of
        None \<Rightarrow> w
      | Some stop_loss \<Rightarrow>
         if stop_loss = 0 then w
         else
           (case get_current_price X (ot_exchange_name trade) (ot_symbol trade) w of
              (None, w1) \<Rightarrow> w1
            | (Some current_price, w1) \<Rightarrow>
               if current_price = 0 then w1
               else
                 (let should_close =
                        (if upper (ot_side trade) = ''LONG'' \<and> current_price \<le> stop_loss
                         then True
                         else if upper (ot_side trade) = ''SHORT'' \<and> current_price \<ge> stop_loss
                         then True
                         else False)
                  in if should_close then AutoTrader_close_position trade ''STOP_LOSS'' w1
                     else w1)))"

definition check_stop_losses :: "ccxt \<Rightarrow> world \<Rightarrow> world" where
  "check_stop_losses X w = fold (stop_loss_step X) (get_open_trades (db w)) w"

text \<open>The body of the loop of \<open>check_take_profits\<close> for one trade.\<close>

definition take_profit_step :: "ccxt \<Rightarrow> open_trade \<Rightarrow> world \<Rightarrow> world" where
  "take_profit_step X trade w =
     (case ot_take_profit trade of
        None \<Rightarrow> w
      | Some take_profit \<Rightarrow>
         if take_profit = 0 then w
         else
           (case get_current_price X (ot_exchange_name trade) (ot_symbol trade) w of
              (None, w1) \<Rightarrow> w1
            | (Some current_price, w1) \<Rightarrow>
               if current_price = 0 then w1
               else
                 (let should_close =
                        (if upper (ot_side trade) = ''LONG'' \<and> current_price \<ge> take_profit
                         then True
                         else if upper (ot_side trade) = ''SHORT'' \<and> current_price \<le> take_profit
                         then True
                         else False)
                  in if should_close then AutoTrader_close_position trade ''TAKE_PROFIT'' w1
                     else w1)))"

definition check_take_profits :: "ccxt \<Rightarrow> world \<Rightarrow> world" where
  "check_take_profits X w = fold (take_profit_step X) (get_open_trades (db w)) w"

text \<open>One iteration of the loop of \<open>start_trading_engine\<close>.\<close>

definition trading_cycle :: "ccxt \<Rightarrow> world \<Rightarrow> world" where
  "trading_cycle X w = check_take_profits X (check_stop_losses X (monitor_positions X w))"

text \<open>\<open>AutoTrader.execute_signal_trade\<close>, which records a trade for each successful
  order. No function of the repository calls it.\<close>

fun AutoTrader_execute_exchanges ::
  "fernet \<Rightarrow> ccxt \<Rightarrow> subscriber \<Rightarrow> signal_row \<Rightarrow> exchange_row list \<Rightarrow> world \<Rightarrow> world"
where
  "AutoTrader_execute_exchanges F X user signal [] w = w"
| "AutoTrader_execute_exchanges F X user signal (exchange # rest) w =
     (if e_auto_trade exchange \<noteq> Some True then
        AutoTrader_execute_exchanges F X user signal rest w
      else
        (case execute_trade F X exchange signal user w of
           (result, w1) \<Rightarrow>
             if tr_success result then
               (case (tr_entry_price result, tr_quantity result) of
                  (Some entry_price, Some quantity) \<Rightarrow>
                    AutoTrader_execute_exchanges F X user signal rest
                      (log_info ''Trade executed for user''
                         (w1\<lparr>db := create_trade (sr_id user) (e_id exchange) (s_id signal)
                                      (s_symbol signal) (action signal) entry_price quantity
                                      (db w1)\<rparr>))
                | _ \<Rightarrow> log_error ''Error executing signal trade'' (KeyError ''entry_price'') w1)
             else AutoTrader_execute_exchanges F X user signal rest w1))"

definition AutoTrader_execute_signal_trade ::
  "fernet \<Rightarrow> ccxt \<Rightarrow> subscriber \<Rightarrow> signal_row \<Rightarrow> world \<Rightarrow> world"
where
  "AutoTrader_execute_signal_trade F X user signal w =
     AutoTrader_execute_exchanges F X user signal (get_user_exchanges (sr_id user) (db w)) w"

section \<open>The signal distribution engine (trading/signal\_processor.py)\<close>

text \<open>The loop of \<open>execute_signal\<close> over the subscribers. The call it makes catches every
  exception itself, so the inner \<open>except\<close> of the loop is never entered.\<close>

definition fan_out :: "fernet \<Rightarrow> ccxt \<Rightarrow> signal_row \<Rightarrow> world \<Rightarrow> world" where
  "fan_out F X signal w =
     fold (\<lambda>user. FuturesTrader_execute_signal_trade F X user signal)
          (get_subscribed_users (db w)) w"

definition execute_signal :: "fernet \<Rightarrow> ccxt \<Rightarrow> signal_row \<Rightarrow> world \<Rightarrow> world" where
  "execute_signal F X signal w =
     (let w1 = fan_out F X signal w
      in w1\<lparr>db := mark_signal_processed (s_id signal) (db w1)\<rparr>)"

text \<open>\<open>process_pending_signals\<close> reads the pending signals, then executes each of them;
  \<open>process_fetched\<close> is its loop alone, on a list read earlier.\<close>

definition process_fetched :: "fernet \<Rightarrow> ccxt \<Rightarrow> signal_row list \<Rightarrow> world \<Rightarrow> world" where
  "process_fetched F X pending_signals w = fold (execute_signal F X) pending_signals w"

definition process_pending_signals :: "fernet \<Rightarrow> ccxt \<Rightarrow> world \<Rightarrow> world" where
  "process_pending_signals F X w = process_fetched F X (get_pending_signals (db w)) w"

section \<open>The administrator's emergency close (bot/admin\_handlers.py)\<close>







section \<open>Configuration (config/settings.py)\<close>

text \<open>The class attributes are computed from the process environment when the module is
  imported. \<open>int\<close> is Python's conversion of a string, a parameter here; it raises
  \<open>ValueError\<close> where the parameter answers \<open>None\<close>.\<close>

record config =
  BOT_TOKEN :: "string option"
  ADMIN_ID :: int
  ENCRYPTION_KEY :: string
  WEBHOOK_PORT :: int
  DB_PATH :: string
  LOG_FILE :: string

definition getenv_default :: "(string \<rightharpoonup> string) \<Rightarrow> string \<Rightarrow> string \<Rightarrow> string" where
  "getenv_default environ name dflt = (case environ name of None \<Rightarrow> dflt | Some v \<Rightarrow> v)"

definition getenv_int ::
  "(string \<Rightarrow> int option) \<Rightarrow> (string \<rightharpoonup> string) \<Rightarrow> string \<Rightarrow> int \<Rightarrow> error + int"
where
  "getenv_int py_int environ name dflt =
     (case environ name of
        None \<Rightarrow> Inr dflt
      | Some v \<Rightarrow>
         (case py_int v of
            None \<Rightarrow> Inl (ValueError (''invalid literal for int() with base 10: '' @ v))
          | Some n \<Rightarrow> Inr n))"

definition load_config ::
  "(string \<Rightarrow> int option) \<Rightarrow> (string \<rightharpoonup> string) \<Rightarrow> error + config"
where
  "load_config py_int environ =
     (case getenv_int py_int environ ''ADMIN_ID'' 0 of
        Inl e \<Rightarrow> Inl e
      | Inr admin_id \<Rightarrow>
         (case getenv_int py_int environ ''WEBHOOK_PORT'' 8443 of
            Inl e \<Rightarrow> Inl e
          | Inr port \<Rightarrow>
             Inr \<lparr>BOT_TOKEN = environ ''BOT_TOKEN'',
                  ADMIN_ID = admin_id,
                  ENCRYPTION_KEY = getenv_default environ ''ENCRYPTION_KEY''
                                     ''your-secret-key-here'',
                  WEBHOOK_PORT = port,
                  DB_PATH = getenv_default environ ''DB_PATH'' ''data/trading_bot.db'',
                  LOG_FILE = getenv_default environ ''LOG_FILE'' ''logs/trading_bot.log''\<rparr>))"

text \<open>\<open>os.path.dirname\<close> of a POSIX path.\<close>

definition dirname :: "string \<Rightarrow> string" where
  "dirname p =
     (let head = rev (dropWhile (\<lambda>c. c \<noteq> CHR ''/'') (rev p))
      in if head \<noteq> [] \<and> \<not> list_all (\<lambda>c. c = CHR ''/'') head
         then rev (dropWhile (\<lambda>c. c = CHR ''/'') (rev head))
         else head)"

text \<open>\<open>Config.validate\<close>; \<open>makedirs\<close> tells for which paths \<open>os.makedirs(path,
  exist_ok=True)\<close> succeeds.\<close>

definition validate :: "(string \<Rightarrow> bool) \<Rightarrow> config \<Rightarrow> error + bool" where
  "validate makedirs cfg =
     (if BOT_TOKEN cfg = None \<or> BOT_TOKEN cfg = Some [] then
        Inl (ValueError ''BOT_TOKEN is required in .env file'')
      else if ADMIN_ID cfg = 0 then
        Inl (ValueError ''ADMIN_ID is required in .env file'')
      else if \<not> makedirs (dirname (DB_PATH cfg)) then
        Inl (OSError (dirname (DB_PATH cfg)))
      else if \<not> makedirs (dirname (LOG_FILE cfg)) then
        Inl (OSError (dirname (LOG_FILE cfg)))
      else Inr True)"

text \<open>The start of \<open>main\<close> in app.py: the configuration is loaded with the module, then
  validated; an exception ends the start-up with the error, otherwise the handlers and the
  two engines are built, the vault from \<open>Config.ENCRYPTION_KEY\<close>.\<close>

definition startup ::
  "(string \<Rightarrow> int option) \<Rightarrow> (string \<Rightarrow> bool) \<Rightarrow> (string \<rightharpoonup> string) \<Rightarrow> error + config"
where
  "startup py_int makedirs environ =
     (case load_config py_int environ of
        Inl e \<Rightarrow> Inl e
      | Inr cfg \<Rightarrow>
         (case validate makedirs cfg of
            Inl e \<Rightarrow> Inl e
          | Inr _ \<Rightarrow> Inr cfg))"

section \<open>The monitoring steps on one row\<close>

text \<open>What \<open>get_current_price\<close> returns, what one step of each of the three loops of the
  engine does to one row of \<open>trade_executions\<close>, and when a step closes; the verification
  shows that the steps above act on the table in this way.\<close>

definition ticker_price :: "ccxt \<Rightarrow> string \<Rightarrow> string \<Rightarrow> real option" where
  "ticker_price X exchange_name symbol =
     (if exchange_name \<in> set supported_exchanges
      then (case fetch_ticker X exchange_name symbol of Inl e \<Rightarrow> None | Inr p \<Rightarrow> p)
      else None)"

definition update_row :: "ccxt \<Rightarrow> open_trade \<Rightarrow> trade_row \<Rightarrow> trade_row" where
  "update_row X d r =
     (case ticker_price X (ot_exchange_name d) (ot_symbol d) of
        None \<Rightarrow> r
      | Some p \<Rightarrow>
         if p = 0 then r
         else if t_id r = ot_id d
         then r\<lparr>t_pnl := Some (if upper (ot_side d) = ''LONG''
                                then (p - ot_entry_price d) * ot_quantity d
                                else (ot_entry_price d - p) * ot_quantity d),
                t_current_price := Some p\<rparr>
         else r)"

definition close_row :: "nat \<Rightarrow> nat \<Rightarrow> trade_row \<Rightarrow> trade_row" where
  "close_row c i r =
     (if t_id r = i
      then r\<lparr>t_status := ''closed'', t_current_price := Some 0, t_pnl := Some 0,
             t_closed_at := Some c\<rparr>
      else r)"

definition stop_loss_fires :: "ccxt \<Rightarrow> open_trade \<Rightarrow> bool" where
  "stop_loss_fires X d =
     (case ot_stop_loss d of
        None \<Rightarrow> False
      | Some sl \<Rightarrow>
         sl \<noteq> 0 \<and>
         (case ticker_price X (ot_exchange_name d) (ot_symbol d) of
            None \<Rightarrow> False
          | Some p \<Rightarrow>
             p \<noteq> 0 \<and> (upper (ot_side d) = ''LONG'' \<and> p \<le> sl
                      \<or> upper (ot_side d) = ''SHORT'' \<and> p \<ge> sl)))"

definition take_profit_fires :: "ccxt \<Rightarrow> open_trade \<Rightarrow> bool" where
  "take_profit_fires X d =
     (case ot_take_profit d of
        None \<Rightarrow> False
      | Some tp \<Rightarrow>
         tp \<noteq> 0 \<and>
         (case ticker_price X (ot_exchange_name d) (ot_symbol d) of
            None \<Rightarrow> False
          | Some p \<Rightarrow>
             p \<noteq> 0 \<and> (upper (ot_side d) = ''LONG'' \<and> p \<ge> tp
                      \<or> upper (ot_side d) = ''SHORT'' \<and> p \<le> tp)))"

section \<open>Concrete stores used in the examples\<close>

abbreviation example_trade :: "nat \<Rightarrow> string \<Rightarrow> string \<Rightarrow> trade_row" where
  "example_trade i side status \<equiv>
     \<lparr>t_id = i, t_signal_id = 1, t_user_id = i, t_exchange_name = ''binance'',
      t_symbol = ''BTCUSDT'', t_side = side, t_quantity = 2, t_entry_price = 100,
      t_current_price = Some 105, t_pnl = Some 10, t_status = status,
      t_executed_at = i, t_closed_at = (if status = ''closed'' then Some 3 else None)\<rparr>"

abbreviation example_signal :: "string \<Rightarrow> real option \<Rightarrow> real option \<Rightarrow> signal_row" where
  "example_signal status sl tp \<equiv>
     \<lparr>s_id = 1, s_symbol = ''BTCUSDT'', s_signal_type = ''long'', s_entry_price = 35000,
      s_stop_loss = sl, s_take_profit = tp, s_leverage = Some 10,
      s_position_size_percent = Some 5, s_status = status, s_expires_at = Some 100,
      s_created_by = 0, s_created_at = 1\<rparr>"

abbreviation example_store :: "signal_row list \<Rightarrow> trade_row list \<Rightarrow> store" where
  "example_store sigs trades \<equiv>
     \<lparr>users = [], subscriptions = [], exchanges = [], signals = sigs,
      trade_executions = trades, clock = 7\<rparr>"

abbreviation example_world :: "store \<Rightarrow> world" where
  "example_world st \<equiv> \<lparr>db = st, logged = [], calls = []\<rparr>"

text \<open>A cipher for the examples: a token is the message behind a one-byte version mark,
  and a token without the mark is rejected.\<close>

abbreviation example_fernet :: fernet where
  "example_fernet \<equiv>
     \<lparr>fernet_encrypt = (\<lambda>iv m. CHR ''g'' # m),
      fernet_decrypt = (\<lambda>c. case c of
                              [] \<Rightarrow> Inl InvalidToken
                            | x # m \<Rightarrow> if x = CHR ''g'' then Inr m else Inl InvalidToken)\<rparr>"

text \<open>An exchange library for the examples: the balance request gets the given answer,
  the ticker gives the given price, and every other request succeeds.\<close>

abbreviation example_ccxt :: "(error + balance_response) \<Rightarrow> (error + real option) \<Rightarrow> ccxt" where
  "example_ccxt balance ticker \<equiv>
     \<lparr>fetch_balance = (\<lambda>c. balance),
      set_leverage_api = (\<lambda>c l s. Inr ()),
      create_market_order = (\<lambda>c s sd q. Inr \<lparr>order_id = ''1'', order_price = None\<rparr>),
      create_order = (\<lambda>c s sd q p. Inr ()),
      create_limit_order = (\<lambda>c s sd q p. Inr ()),
      fetch_ticker = (\<lambda>n s. ticker)\<rparr>"


text \<open>A process environment for the examples, with the bot token and the administrator's id
  and nothing else, and the conversion of the one number in it.\<close>

abbreviation example_environ :: "string \<rightharpoonup> string" where
  "example_environ \<equiv> [''BOT_TOKEN'' \<mapsto> ''123:abc'', ''ADMIN_ID'' \<mapsto> ''42'']"

abbreviation example_int :: "string \<Rightarrow> int option" where
  "example_int \<equiv> (\<lambda>s. if s = ''42'' then Some 42 else None)"

text \<open>A store for the distribution examples: the given users, each subscribed and with one
  active binance connection set to trade automatically, whose encrypted key is the given
  byte string; one pending signal (BTCUSDT, long, entry 35000, stop-loss 34000, take-profit
  36000, leverage 10); no trades.\<close>

abbreviation example_exchange :: "nat \<Rightarrow> bytes \<Rightarrow> exchange_row" where
  "example_exchange i encrypted_key \<equiv>
     \<lparr>e_id = i, e_user_id = i, e_exchange_name = ''binance'',
      e_api_key_encrypted = encrypted_key, e_api_secret_encrypted = ''gsecret'',
      e_passphrase_encrypted = None, e_is_active = True, e_auto_trade = Some True,
      e_leverage = Some 10, e_position_size_percent = Some 5\<rparr>"

abbreviation distribution_store :: "(nat \<times> bytes) list \<Rightarrow> store" where
  "distribution_store us \<equiv>
     \<lparr>users = map (\<lambda>(i, k). \<lparr>u_id = i, u_telegram_id = i\<rparr>) us,
      subscriptions = map (\<lambda>(i, k). \<lparr>sub_user_id = i, sub_is_subscribed = True,
                                       sub_auto_trade = True, sub_max_position_size = 5\<rparr>) us,
      exchanges = map (\<lambda>(i, k). example_exchange i k) us,
      signals = [example_signal ''pending'' (Some 34000) (Some 36000)],
      trade_executions = [],
      clock = 7\<rparr>"

abbreviation three_users :: "(nat \<times> bytes) list" where
  "three_users \<equiv> [(1, ''gkey1''), (2, ''corrupted''), (3, ''gkey3'')]"


text \<open>The answers that awaiting the results of the synchronous client yields.\<close>

abbreviation not_awaitable :: error where
  "not_awaitable \<equiv> TypeError ''object dict can not be used in await expression''"

abbreviation synchronous_ccxt :: ccxt where
  "synchronous_ccxt \<equiv>
     \<lparr>fetch_balance = (\<lambda>c. Inl not_awaitable),
      set_leverage_api = (\<lambda>c l s. Inl not_awaitable),
      create_market_order = (\<lambda>c s sd q. Inl not_awaitable),
      create_order = (\<lambda>c s sd q p. Inl not_awaitable),
      create_limit_order = (\<lambda>c s sd q p. Inl not_awaitable),
      fetch_ticker = (\<lambda>n s. Inl not_awaitable)\<rparr>"

text \<open>A store in which a trade can be recorded: one active binance connection, number 1,
  and one signal, number 1, with the given stop-loss and take-profit; no trades.\<close>

abbreviation recording_store :: "real option \<Rightarrow> real option \<Rightarrow> store" where
  "recording_store sl tp \<equiv>
     \<lparr>users = [], subscriptions = [], exchanges = [example_exchange 1 ''gkey1''],
      signals = [example_signal ''processed'' sl tp], trade_executions = [], clock = 7\<rparr>"

section \<open>Verification\<close>

subsection \<open>Closing a trade row\<close>

lemma trade_executions_close_trade:
  "trade_executions (TradeModel_close_trade i cp p reason st) =
     map (\<lambda>r. if t_id r = i
              then r\<lparr>t_status := ''closed'', t_current_price := Some cp,
                     t_pnl := Some p, t_closed_at := Some (clock st)\<rparr>
              else r)
         (trade_executions st)"
  by (simp add: TradeModel_close_trade_def)

lemma close_trade_twice:
  "TradeModel_close_trade i cp2 p2 r2 (TradeModel_close_trade i cp1 p1 r1 st) =
     TradeModel_close_trade i cp2 p2 r2 st"
  by (simp add: TradeModel_close_trade_def comp_def if_distrib [of t_id] cong: if_cong)

lemma close_trade_rows:
  assumes "r \<in> set (trade_executions (TradeModel_close_trade i cp p reason st))"
    and "t_id r = i"
  shows "t_status r = ''closed'' \<and> t_current_price r = Some cp \<and> t_pnl r = Some p
     \<and> t_closed_at r = Some (clock st)"
proof -
  from assms(1) obtain x where x: "x \<in> set (trade_executions st)"
    and r: "r = (if t_id x = i
                 then x\<lparr>t_status := ''closed'', t_current_price := Some cp,
                        t_pnl := Some p, t_closed_at := Some (clock st)\<rparr>
                 else x)"
    unfolding trade_executions_close_trade set_map by blast
  show ?thesis
  proof (cases "t_id x = i")
    case True
    with r show ?thesis by simp
  next
    case False
    with r assms(2) show ?thesis by simp
  qed
qed

text \<open>
  Claim C2, as the code has it. \<open>TradeModel.close_trade\<close> is a write keyed by the row id
  alone: whatever the status of the row was, afterwards every row with that id is
  \<open>closed\<close> and carries the close price, the profit and loss and the time of this call. A
  second close of the same id therefore replaces what the first one wrote, and the result
  is the same as if only the second had run. The ids of the table are left as they were.
  The method returns nothing, so no caller learns whether the row was open.
\<close>

theorem close_trade_unconditional:
  "TradeModel_close_trade i cp2 p2 r2 (TradeModel_close_trade i cp1 p1 r1 st) =
     TradeModel_close_trade i cp2 p2 r2 st
   \<and> (\<forall>r \<in> set (trade_executions (TradeModel_close_trade i cp2 p2 r2 st)).
        t_id r = i \<longrightarrow>
          t_status r = ''closed'' \<and> t_current_price r = Some cp2 \<and> t_pnl r = Some p2
          \<and> t_closed_at r = Some (clock st))
   \<and> map t_id (trade_executions (TradeModel_close_trade i cp2 p2 r2 st)) =
       map t_id (trade_executions st)"
proof -
  have a: "TradeModel_close_trade i cp2 p2 r2 (TradeModel_close_trade i cp1 p1 r1 st) =
     TradeModel_close_trade i cp2 p2 r2 st"
    by (rule close_trade_twice)
  have b: "\<forall>r \<in> set (trade_executions (TradeModel_close_trade i cp2 p2 r2 st)).
        t_id r = i \<longrightarrow>
          t_status r = ''closed'' \<and> t_current_price r = Some cp2 \<and> t_pnl r = Some p2
          \<and> t_closed_at r = Some (clock st)"
    using close_trade_rows by blast
  have c: "map t_id (trade_executions (TradeModel_close_trade i cp2 p2 r2 st)) =
       map t_id (trade_executions st)"
    by (simp add: trade_executions_close_trade comp_def if_distrib [of t_id])
  show ?thesis
    by (rule conjI [OF a conjI [OF b c]])
qed

text \<open>The theorem at a store whose only trade, number 1, is already closed: the later of
  two closes decides the row, which is in the table with the values of that close.\<close>

theorem close_trade_unconditional_witness:
  "(example_trade 1 ''long'' ''closed'')\<lparr>t_current_price := Some 0, t_pnl := Some 0,
        t_closed_at := Some 7\<rparr>
     \<in> set (trade_executions (TradeModel_close_trade 1 0 0 ''STOP_LOSS''
               (example_store [] [example_trade 1 ''long'' ''closed''])))
   \<and> TradeModel_close_trade 1 0 0 ''STOP_LOSS''
       (TradeModel_close_trade 1 3 4 ''TAKE_PROFIT''
          (example_store [] [example_trade 1 ''long'' ''closed''])) =
      TradeModel_close_trade 1 0 0 ''STOP_LOSS''
          (example_store [] [example_trade 1 ''long'' ''closed''])"
  using close_trade_unconditional [of 1 0 0 "''STOP_LOSS''" 3 4 "''TAKE_PROFIT''"
      "example_store [] [example_trade 1 ''long'' ''closed'']"]
  by (simp add: TradeModel_close_trade_def)

text \<open>Claim C2 as stated fails: a close applied to a position that is already closed (with
  profit and loss 10, closed at time 3) changes the row; its profit and loss becomes 0.\<close>

theorem close_closed_position_counterexample:
  "t_status (example_trade 1 ''long'' ''closed'') = ''closed''
   \<and> TradeModel_close_trade 1 0 0 ''ADMIN_EMERGENCY_CLOSE''
        (example_store [] [example_trade 1 ''long'' ''closed''])
      \<noteq> example_store [] [example_trade 1 ''long'' ''closed'']
   \<and> map t_pnl (trade_executions (TradeModel_close_trade 1 0 0 ''ADMIN_EMERGENCY_CLOSE''
        (example_store [] [example_trade 1 ''long'' ''closed'']))) = [Some 0]"
  by (simp add: TradeModel_close_trade_def)

text \<open>
  Claim C10. \<open>FuturesTrader.close_position\<close> returns the same dictionary for every trade:
  success, close price 0 and profit and loss 0. \<open>AutoTrader.close_position\<close>, which the
  stop-loss and the take-profit checks call, makes no call to an exchange and marks every
  row with the id of the trade \<open>closed\<close>, with current price 0 and profit and loss 0,
  whatever the reason and whatever price triggered the close.
\<close>

theorem close_position_constant_result:
  "FuturesTrader_close_position trade =
     \<lparr>cr_success = True, cr_close_price = Some 0, cr_pnl = Some 0, cr_error = None\<rparr>
   \<and> calls (AutoTrader_close_position trade reason w) = calls w
   \<and> trade_executions (db (AutoTrader_close_position trade reason w)) =
       map (\<lambda>r. if t_id r = ot_id trade
                then r\<lparr>t_status := ''closed'', t_current_price := Some 0, t_pnl := Some 0,
                       t_closed_at := Some (clock (db w))\<rparr>
                else r)
           (trade_executions (db w))"
  by (simp add: FuturesTrader_close_position_def AutoTrader_close_position_def
      TradeModel_close_trade_def log_info_def)

text \<open>The theorem at a store with one open long trade, closed for its stop-loss.\<close>

theorem close_position_constant_result_witness:
  "trade_executions (db (AutoTrader_close_position
       (join_trade (example_trade 1 ''long'' ''open'') (example_signal ''processed'' (Some 95) None))
       ''STOP_LOSS''
       (example_world (example_store [example_signal ''processed'' (Some 95) None]
                         [example_trade 1 ''long'' ''open'']))))
   = [(example_trade 1 ''long'' ''open'')\<lparr>t_status := ''closed'', t_current_price := Some 0,
         t_pnl := Some 0, t_closed_at := Some 7\<rparr>]"
  using close_position_constant_result [of
       "join_trade (example_trade 1 ''long'' ''open'') (example_signal ''processed'' (Some 95) None)"
       "''STOP_LOSS''"
       "example_world (example_store [example_signal ''processed'' (Some 95) None]
                         [example_trade 1 ''long'' ''open''])"]
  by (simp add: join_trade_def)

subsection \<open>The credential vault\<close>

text \<open>
  Claim C6. Fernet is taken with its contract: decrypting a token it produced gives the
  message back, and a token is never the empty byte string. Then, for every key, secret and
  passphrase, the empty passphrase included, decrypting the three values that
  \<open>encrypt_credentials\<close> returns gives the three back and logs nothing; and the empty
  passphrase is encrypted to the empty byte string, which decrypts to the empty string.
\<close>

theorem credentials_round_trip:
  assumes dec: "\<And>iv m. fernet_decrypt F (fernet_encrypt F iv m) = Inr m"
    and nonempty: "\<And>iv m. fernet_encrypt F iv m \<noteq> []"
  shows "(case encrypt_credentials F ivs api_key api_secret passphrase of
            (ek, es, ep) \<Rightarrow> decrypt_credentials F ek es (Some ep) w)
           = (Inr (api_key, api_secret, passphrase), w)
         \<and> snd (snd (encrypt_credentials F ivs api_key api_secret [])) = []
         \<and> (case encrypt_credentials F ivs api_key api_secret [] of
            (ek, es, ep) \<Rightarrow> decrypt_credentials F ek es (Some ep) w)
           = (Inr (api_key, api_secret, []), w)"
  by (cases ivs)
     (simp add: encrypt_credentials_def decrypt_credentials_def encode_def decode_def
        dec nonempty Let_def)

text \<open>The theorem with the cipher of the examples, for an empty and for a non-empty
  passphrase.\<close>

theorem credentials_round_trip_witness:
  "encrypt_credentials example_fernet (1, 2, 3) ''key'' ''secret'' '''' = (''gkey'', ''gsecret'', '''')
   \<and> decrypt_credentials example_fernet ''gkey'' ''gsecret'' (Some '''') (example_world (example_store [] []))
       = (Inr (''key'', ''secret'', ''''), example_world (example_store [] []))
   \<and> (case encrypt_credentials example_fernet (1, 2, 3) ''key'' ''secret'' ''pw'' of
            (ek, es, ep) \<Rightarrow> decrypt_credentials example_fernet ek es (Some ep) (example_world (example_store [] [])))
           = (Inr (''key'', ''secret'', ''pw''), example_world (example_store [] []))"
  using credentials_round_trip [where F = example_fernet and ivs = "(1, 2, 3)"
      and api_key = "''key''" and api_secret = "''secret''" and passphrase = "''pw''"
      and w = "example_world (example_store [] [])"]
    credentials_round_trip [where F = example_fernet and ivs = "(1, 2, 3)"
      and api_key = "''key''" and api_secret = "''secret''" and passphrase = "[]"
      and w = "example_world (example_store [] [])"]
  by (simp add: encrypt_credentials_def encode_def)

subsection \<open>The balance request\<close>




subsection \<open>Start-up and the configuration\<close>

lemma load_config_encryption_key:
  "load_config py_int environ = Inr cfg \<Longrightarrow>
     ENCRYPTION_KEY cfg = getenv_default environ ''ENCRYPTION_KEY'' ''your-secret-key-here''
     \<and> BOT_TOKEN cfg = environ ''BOT_TOKEN''"
  by (auto simp add: load_config_def split: sum.splits)

lemma load_config_ignores_key:
  "load_config py_int (environ(''ENCRYPTION_KEY'' := k)) =
     map_sum id (\<lambda>cfg. cfg\<lparr>ENCRYPTION_KEY := (case k of None \<Rightarrow> ''your-secret-key-here'' | Some v \<Rightarrow> v)\<rparr>)
       (load_config py_int environ)"
  by (simp add: load_config_def getenv_int_def getenv_default_def split: sum.splits option.splits)

lemma validate_ignores_key:
  "validate makedirs (cfg\<lparr>ENCRYPTION_KEY := k\<rparr>) = validate makedirs cfg"
  by (simp add: validate_def)

text \<open>
  Claim C9, as the code has it. Whether the start-up is refused does not depend on the
  variable \<open>ENCRYPTION_KEY\<close>: setting it, changing it or removing it leaves the outcome a
  refusal or a start as before. When the process starts, the key is the value of the
  variable, or \<open>your-secret-key-here\<close> when the variable is absent; the bot token is
  present and not empty and the administrator's id is not 0. The start-up is refused when
  \<open>BOT_TOKEN\<close> is absent or empty, or \<open>ADMIN_ID\<close> is absent.
\<close>

theorem startup_ignores_encryption_key:
  "isl (startup py_int makedirs (environ(''ENCRYPTION_KEY'' := k))) =
     isl (startup py_int makedirs environ)
   \<and> (\<forall>cfg. startup py_int makedirs environ = Inr cfg \<longrightarrow>
          ENCRYPTION_KEY cfg = (case environ ''ENCRYPTION_KEY'' of
                                  None \<Rightarrow> ''your-secret-key-here'' | Some v \<Rightarrow> v)
          \<and> BOT_TOKEN cfg \<noteq> None \<and> BOT_TOKEN cfg \<noteq> Some [] \<and> ADMIN_ID cfg \<noteq> 0)
   \<and> (environ ''BOT_TOKEN'' = None \<or> environ ''BOT_TOKEN'' = Some [] \<or> environ ''ADMIN_ID'' = None
        \<longrightarrow> isl (startup py_int makedirs environ))"
proof (intro conjI allI impI)
  show "isl (startup py_int makedirs (environ(''ENCRYPTION_KEY'' := k))) =
     isl (startup py_int makedirs environ)"
    by (cases "load_config py_int environ")
       (simp_all add: startup_def load_config_ignores_key validate_ignores_key
          split: sum.splits)
next
  fix cfg assume a: "startup py_int makedirs environ = Inr cfg"
  then have l: "load_config py_int environ = Inr cfg" and v: "validate makedirs cfg = Inr True"
    by (auto simp add: startup_def validate_def split: sum.splits if_splits)
  from load_config_encryption_key [OF l]
  show "ENCRYPTION_KEY cfg = (case environ ''ENCRYPTION_KEY'' of
                                  None \<Rightarrow> ''your-secret-key-here'' | Some v \<Rightarrow> v)"
    by (simp add: getenv_default_def)
  from v show "BOT_TOKEN cfg \<noteq> None" by (auto simp add: validate_def split: if_splits)
  from v show "BOT_TOKEN cfg \<noteq> Some []" by (auto simp add: validate_def split: if_splits)
  from v show "ADMIN_ID cfg \<noteq> 0" by (auto simp add: validate_def split: if_splits)
next
  assume a: "environ ''BOT_TOKEN'' = None \<or> environ ''BOT_TOKEN'' = Some [] \<or> environ ''ADMIN_ID'' = None"
  show "isl (startup py_int makedirs environ)"
  proof (cases "load_config py_int environ")
    case (Inl e)
    then show ?thesis by (simp add: startup_def)
  next
    case (Inr cfg)
    have "BOT_TOKEN cfg = environ ''BOT_TOKEN''"
      using load_config_encryption_key [OF Inr] by simp
    moreover have "environ ''ADMIN_ID'' = None \<Longrightarrow> ADMIN_ID cfg = 0"
      using Inr by (auto simp add: load_config_def getenv_int_def split: sum.splits)
    ultimately have "isl (validate makedirs cfg)"
      using a by (auto simp add: validate_def)
    with Inr show ?thesis
      by (cases "validate makedirs cfg") (simp_all add: startup_def)
  qed
qed

text \<open>The theorem at an environment with the two required variables and no
  \<open>ENCRYPTION_KEY\<close>, and at the same environment without \<open>BOT_TOKEN\<close>.\<close>

theorem startup_ignores_encryption_key_witness:
  "example_environ ''ENCRYPTION_KEY'' = None
   \<and> startup example_int (\<lambda>p. True) example_environ =
       Inr \<lparr>BOT_TOKEN = Some ''123:abc'', ADMIN_ID = 42,
            ENCRYPTION_KEY = ''your-secret-key-here'', WEBHOOK_PORT = 8443,
            DB_PATH = ''data/trading_bot.db'', LOG_FILE = ''logs/trading_bot.log''\<rparr>
   \<and> isl (startup example_int (\<lambda>p. True) (example_environ(''BOT_TOKEN'' := None)))"
  using startup_ignores_encryption_key [where py_int = example_int and makedirs = "\<lambda>p. True"
      and environ = example_environ and k = None]
    startup_ignores_encryption_key [where py_int = example_int and makedirs = "\<lambda>p. True"
      and environ = "example_environ(''BOT_TOKEN'' := None)" and k = None]
  by (simp add: startup_def load_config_def getenv_int_def getenv_default_def validate_def)

text \<open>Claim C9 as stated fails: with \<open>ENCRYPTION_KEY\<close> absent from the environment the
  process starts, and the vault is keyed with the default string.\<close>

theorem startup_without_secret_counterexample:
  "example_environ ''ENCRYPTION_KEY'' = None
   \<and> startup example_int (\<lambda>p. True) example_environ =
       Inr \<lparr>BOT_TOKEN = Some ''123:abc'', ADMIN_ID = 42,
            ENCRYPTION_KEY = ''your-secret-key-here'', WEBHOOK_PORT = 8443,
            DB_PATH = ''data/trading_bot.db'', LOG_FILE = ''logs/trading_bot.log''\<rparr>"
  by (simp add: startup_def load_config_def getenv_int_def getenv_default_def validate_def)

subsection \<open>The administrator's emergency close\<close>








subsection \<open>Distributing a signal\<close>

text \<open>\<open>FuturesTrader.execute_signal_trade\<close> reads an attribute that an
  \<open>ExchangeAuthManager\<close> does not have; the handler of its \<open>try\<close> logs the error, and that
  is all the method does.\<close>

lemma execute_signal_trade_attribute_error:
  "FuturesTrader_execute_signal_trade F X user signal w =
     log_error ''Error executing signal trade'' (AttributeError ''db'') w"
  by (simp add: FuturesTrader_execute_signal_trade_def auth_manager_getattr_def
      auth_manager_attributes_def)

text \<open>
  Claim C3 at the scenario of the specification: three subscribed users, each with an
  active connection that trades automatically, the second with a key that the vault cannot
  decrypt. \<open>execute_signal\<close> attempts the three users, creates no trade record, makes no
  call to an exchange, logs the same attribute error three times and no decryption error,
  and marks the signal \<open>processed\<close>.
\<close>

theorem distribution_creates_no_position:
  "map sr_id (get_subscribed_users (distribution_store three_users)) = [1, 2, 3]
   \<and> trade_executions (db (execute_signal example_fernet
         (example_ccxt (Inr [(''USDT'', [(''free'', Some 1000)])]) (Inr None))
         (example_signal ''pending'' (Some 34000) (Some 36000))
         (example_world (distribution_store three_users)))) = []
   \<and> calls (execute_signal example_fernet
         (example_ccxt (Inr [(''USDT'', [(''free'', Some 1000)])]) (Inr None))
         (example_signal ''pending'' (Some 34000) (Some 36000))
         (example_world (distribution_store three_users))) = []
   \<and> logged (execute_signal example_fernet
         (example_ccxt (Inr [(''USDT'', [(''free'', Some 1000)])]) (Inr None))
         (example_signal ''pending'' (Some 34000) (Some 36000))
         (example_world (distribution_store three_users))) =
       [LogError ''Error executing signal trade'' (AttributeError ''db''),
        LogError ''Error executing signal trade'' (AttributeError ''db''),
        LogError ''Error executing signal trade'' (AttributeError ''db'')]
   \<and> map s_status (signals (db (execute_signal example_fernet
         (example_ccxt (Inr [(''USDT'', [(''free'', Some 1000)])]) (Inr None))
         (example_signal ''pending'' (Some 34000) (Some 36000))
         (example_world (distribution_store three_users))))) = [''processed'']"
  by (simp add: execute_signal_def fan_out_def get_subscribed_users_def
      execute_signal_trade_attribute_error log_error_def mark_signal_processed_def)

lemma fan_out_logs_only:
  "db (fold (\<lambda>user. FuturesTrader_execute_signal_trade F X user signal) us w) = db w"
  by (induction us arbitrary: w) (simp_all add: execute_signal_trade_attribute_error log_error_def)

lemma signals_execute_signal:
  "signals (db (execute_signal F X signal w)) =
     map (\<lambda>r. if s_id r = s_id signal then r\<lparr>s_status := ''processed''\<rparr> else r)
         (signals (db w))"
  by (simp add: execute_signal_def fan_out_def fan_out_logs_only mark_signal_processed_def Let_def)

lemma execute_signal_no_processing:
  assumes "''processing'' \<notin> set (map s_status (signals (db w)))"
  shows "''processing'' \<notin> set (map s_status (signals (db (execute_signal F X signal w))))"
proof
  assume "''processing'' \<in> set (map s_status (signals (db (execute_signal F X signal w))))"
  then obtain r where r: "r \<in> set (signals (db w))"
    and p: "s_status (if s_id r = s_id signal then r\<lparr>s_status := ''processed''\<rparr> else r)
              = ''processing''"
    unfolding signals_execute_signal by auto
  show False
  proof (cases "s_id r = s_id signal")
    case True
    with p show False by simp
  next
    case False
    have "s_status r \<in> s_status ` set (signals (db w))"
      using r by (rule imageI)
    with False p assms show False by simp
  qed
qed

lemma process_fetched_no_processing:
  "''processing'' \<notin> set (map s_status (signals (db w))) \<Longrightarrow>
   ''processing'' \<notin> set (map s_status (signals (db (process_fetched F X sigs w))))"
proof (induction sigs arbitrary: w)
  case Nil
  then show ?case by (simp add: process_fetched_def)
next
  case (Cons s sigs)
  from execute_signal_no_processing [OF Cons.prems]
  have "''processing'' \<notin> set (map s_status (signals (db (execute_signal F X s w))))" .
  from Cons.IH [OF this] show ?case by (simp add: process_fetched_def)
qed

text \<open>
  Claim C1, as the code has it. No status is written before or while the users are
  attempted: after the loop over the users the table of signals is as it was. Then the
  status of every row with the id of the signal is set to \<open>processed\<close>, whatever it was.
  The status \<open>processing\<close> is never written: a table without it has none after any list of
  signals was processed, be it the list just read or one read earlier.
\<close>

theorem signal_processed_without_claim:
  "signals (db (fan_out F X signal w)) = signals (db w)
   \<and> signals (db (execute_signal F X signal w)) =
       map (\<lambda>r. if s_id r = s_id signal then r\<lparr>s_status := ''processed''\<rparr> else r)
           (signals (db w))
   \<and> (''processing'' \<notin> set (map s_status (signals (db w))) \<longrightarrow>
       ''processing'' \<notin> set (map s_status (signals (db (process_fetched F X sigs w)))))"
  using signals_execute_signal [of F X signal w] process_fetched_no_processing [of w F X sigs]
  by (simp add: fan_out_def fan_out_logs_only)

text \<open>The theorem at a store with one pending signal and one subscriber.\<close>

theorem signal_processed_without_claim_witness:
  "map s_status (signals (db (example_world (distribution_store [(1, ''gkey1'')])))) = [''pending'']
   \<and> map s_status (signals (db (process_fetched example_fernet
         (example_ccxt (Inr []) (Inr None))
         [example_signal ''pending'' (Some 34000) (Some 36000)]
         (example_world (distribution_store [(1, ''gkey1'')]))))) = [''processed'']"
  using signal_processed_without_claim [where F = example_fernet
      and X = "example_ccxt (Inr []) (Inr None)"
      and signal = "example_signal ''pending'' (Some 34000) (Some 36000)"
      and sigs = "[example_signal ''pending'' (Some 34000) (Some 36000)]"
      and w = "example_world (distribution_store [(1, ''gkey1'')])"]
  by (simp add: process_fetched_def)

text \<open>Claim C1 as stated fails. With one pending signal and one subscriber, the signal is
  still \<open>pending\<close>, not \<open>processing\<close>, after the users were attempted; and when two polling
  cycles both read the pending signals before either executes, both execute the signal
  for the user: nothing makes the second one fail.\<close>

theorem signal_claim_counterexample:
  "get_pending_signals (distribution_store [(1, ''gkey1'')]) =
     [example_signal ''pending'' (Some 34000) (Some 36000)]
   \<and> map s_status (signals (db (fan_out example_fernet (example_ccxt (Inr []) (Inr None))
         (example_signal ''pending'' (Some 34000) (Some 36000))
         (example_world (distribution_store [(1, ''gkey1'')]))))) = [''pending'']
   \<and> logged (process_fetched example_fernet (example_ccxt (Inr []) (Inr None))
         (get_pending_signals (distribution_store [(1, ''gkey1'')]))
         (process_fetched example_fernet (example_ccxt (Inr []) (Inr None))
            (get_pending_signals (distribution_store [(1, ''gkey1'')]))
            (example_world (distribution_store [(1, ''gkey1'')])))) =
       [LogError ''Error executing signal trade'' (AttributeError ''db''),
        LogError ''Error executing signal trade'' (AttributeError ''db'')]"
  by (simp add: get_pending_signals_def process_fetched_def execute_signal_def fan_out_def
      get_subscribed_users_def execute_signal_trade_attribute_error log_error_def
      mark_signal_processed_def)

subsection \<open>The monitoring cycle, row by row\<close>

lemma get_current_price_fst:
  "fst (get_current_price X n s w) = ticker_price X n s"
  by (simp add: get_current_price_def ticker_price_def Let_def split: sum.split)

lemma get_current_price_db:
  "db (snd (get_current_price X n s w)) = db w"
  by (simp add: get_current_price_def Let_def called_def log_error_def split: sum.split)

lemma get_current_price_cases:
  obtains w1 where "get_current_price X n s w = (ticker_price X n s, w1)" "db w1 = db w"
  using get_current_price_fst [of X n s w] get_current_price_db [of X n s w]
  by (cases "get_current_price X n s w") auto

lemma store_rows_same: "st\<lparr>trade_executions := map (\<lambda>r. r) (trade_executions st)\<rparr> = st"
  by simp

lemma update_step_db:
  "db (AutoTrader_update_trade_pnl X d w) =
     (db w)\<lparr>trade_executions := map (update_row X d) (trade_executions (db w))\<rparr>"
proof -
  obtain w1 where g: "get_current_price X (ot_exchange_name d) (ot_symbol d) w
        = (ticker_price X (ot_exchange_name d) (ot_symbol d), w1)" and d: "db w1 = db w"
    by (rule get_current_price_cases)
  show ?thesis
  proof (cases "ticker_price X (ot_exchange_name d) (ot_symbol d)")
    case None
    then have "update_row X d = (\<lambda>r. r)" by (simp add: update_row_def fun_eq_iff)
    with None g d show ?thesis by (simp add: AutoTrader_update_trade_pnl_def)
  next
    case (Some p)
    show ?thesis
    proof (cases "p = 0")
      case True
      with Some have "update_row X d = (\<lambda>r. r)" by (simp add: update_row_def fun_eq_iff)
      with Some True g d show ?thesis by (simp add: AutoTrader_update_trade_pnl_def)
    next
      case False
      with Some have "update_row X d =
         (\<lambda>r. if t_id r = ot_id d
              then r\<lparr>t_pnl := Some (if upper (ot_side d) = ''LONG''
                                then (p - ot_entry_price d) * ot_quantity d
                                else (ot_entry_price d - p) * ot_quantity d),
                t_current_price := Some p\<rparr>
              else r)"
        by (simp add: update_row_def fun_eq_iff)
      with Some False g d show ?thesis
        by (simp add: AutoTrader_update_trade_pnl_def TradeModel_update_trade_pnl_def Let_def)
    qed
  qed
qed

lemma close_position_db:
  "db (AutoTrader_close_position d reason w) =
     (db w)\<lparr>trade_executions := map (close_row (clock (db w)) (ot_id d)) (trade_executions (db w))\<rparr>"
  by (simp add: AutoTrader_close_position_def FuturesTrader_close_position_def
      TradeModel_close_trade_def log_info_def close_row_def [abs_def])


lemma stop_loss_step_db:
  "db (stop_loss_step X d w) =
     (db w)\<lparr>trade_executions :=
        map (if stop_loss_fires X d then close_row (clock (db w)) (ot_id d) else (\<lambda>r. r))
            (trade_executions (db w))\<rparr>"
proof -
  obtain w1 where g: "get_current_price X (ot_exchange_name d) (ot_symbol d) w
        = (ticker_price X (ot_exchange_name d) (ot_symbol d), w1)" and d: "db w1 = db w"
    by (rule get_current_price_cases)
  show ?thesis
  proof (cases "stop_loss_fires X d")
    case True
    then obtain sl p where "ot_stop_loss d = Some sl" "sl \<noteq> 0"
      "ticker_price X (ot_exchange_name d) (ot_symbol d) = Some p" "p \<noteq> 0"
      "upper (ot_side d) = ''LONG'' \<and> p \<le> sl \<or> upper (ot_side d) = ''SHORT'' \<and> p \<ge> sl"
      by (auto simp add: stop_loss_fires_def split: option.splits)
    with True g d show ?thesis
      by (auto simp add: stop_loss_step_def close_position_db)
  next
    case False
    have "db (stop_loss_step X d w) = db w"
    proof (cases "ot_stop_loss d")
      case None
      then show ?thesis by (simp add: stop_loss_step_def)
    next
      case (Some sl)
      show ?thesis
      proof (cases "ticker_price X (ot_exchange_name d) (ot_symbol d)")
        case None
        with Some g d show ?thesis by (simp add: stop_loss_step_def)
      next
        case (Some p)
        with \<open>ot_stop_loss d = Some sl\<close> False g d show ?thesis
          by (auto simp add: stop_loss_step_def stop_loss_fires_def)
      qed
    qed
    with False show ?thesis by simp
  qed
qed

lemma take_profit_step_db:
  "db (take_profit_step X d w) =
     (db w)\<lparr>trade_executions :=
        map (if take_profit_fires X d then close_row (clock (db w)) (ot_id d) else (\<lambda>r. r))
            (trade_executions (db w))\<rparr>"
proof -
  obtain w1 where g: "get_current_price X (ot_exchange_name d) (ot_symbol d) w
        = (ticker_price X (ot_exchange_name d) (ot_symbol d), w1)" and d: "db w1 = db w"
    by (rule get_current_price_cases)
  show ?thesis
  proof (cases "take_profit_fires X d")
    case True
    then obtain tp p where "ot_take_profit d = Some tp" "tp \<noteq> 0"
      "ticker_price X (ot_exchange_name d) (ot_symbol d) = Some p" "p \<noteq> 0"
      "upper (ot_side d) = ''LONG'' \<and> p \<ge> tp \<or> upper (ot_side d) = ''SHORT'' \<and> p \<le> tp"
      by (auto simp add: take_profit_fires_def split: option.splits)
    with True g d show ?thesis
      by (auto simp add: take_profit_step_def close_position_db)
  next
    case False
    have "db (take_profit_step X d w) = db w"
    proof (cases "ot_take_profit d")
      case None
      then show ?thesis by (simp add: take_profit_step_def)
    next
      case (Some tp)
      show ?thesis
      proof (cases "ticker_price X (ot_exchange_name d) (ot_symbol d)")
        case None
        with Some g d show ?thesis by (simp add: take_profit_step_def)
      next
        case (Some p)
        with \<open>ot_take_profit d = Some tp\<close> False g d show ?thesis
          by (auto simp add: take_profit_step_def take_profit_fires_def)
      qed
    qed
    with False show ?thesis by simp
  qed
qed

lemma fold_rowwise:
  assumes step: "\<And>d w. db (step d w) =
      (db w)\<lparr>trade_executions := map (g (clock (db w)) d) (trade_executions (db w))\<rparr>"
  shows "db (fold step ds w) =
      (db w)\<lparr>trade_executions := map (fold (g (clock (db w))) ds) (trade_executions (db w))\<rparr>"
proof (induction ds arbitrary: w)
  case Nil
  show ?case by simp
next
  case (Cons d ds)
  have "db (fold step (d # ds) w) = db (fold step ds (step d w))" by simp
  also have "\<dots> = (db (step d w))\<lparr>trade_executions :=
      map (fold (g (clock (db (step d w)))) ds) (trade_executions (db (step d w)))\<rparr>"
    by (rule Cons.IH)
  also have "\<dots> = (db w)\<lparr>trade_executions :=
      map (fold (g (clock (db w))) (d # ds)) (trade_executions (db w))\<rparr>"
    by (simp add: step comp_def)
  finally show ?case .
qed

lemma fold_touch:
  assumes "\<And>d x. d \<in> set ds \<Longrightarrow> x = r \<or> x = T \<Longrightarrow> g d x = (if P d then T else x)"
    and "x = r \<or> x = T"
  shows "fold g ds x = (if \<exists>d\<in>set ds. P d then T else x)"
  using assms
proof (induction ds arbitrary: x)
  case Nil
  then show ?case by simp
next
  case (Cons d ds)
  have step: "g d x = (if P d then T else x)"
    using Cons.prems by simp
  have next_ok: "g d x = r \<or> g d x = T"
    using step Cons.prems(2) by auto
  have "fold g ds (g d x) = (if \<exists>d\<in>set ds. P d then T else g d x)"
    using Cons.prems(1) next_ok by (intro Cons.IH) auto
  then show ?case
    using step by auto
qed

lemma set_get_open_trades:
  "set (get_open_trades st) =
     {join_trade t s | t s. t \<in> set (trade_executions st) \<and> t_status t = ''open''
                          \<and> s \<in> set (signals st) \<and> s_id s = t_signal_id t}"
  by (auto simp add: get_open_trades_def image_iff; blast)


lemma dicts_of_row:
  assumes ids: "distinct (map t_id (trade_executions st))"
    and r: "r \<in> set (trade_executions st)"
    and d: "d \<in> set (get_open_trades st)"
    and same: "ot_id d = t_id r"
  shows "t_status r = ''open'' \<and> (\<exists>s\<in>set (signals st). s_id s = t_signal_id r \<and> d = join_trade r s)"
proof -
  from d obtain t s where t: "t \<in> set (trade_executions st)" and op: "t_status t = ''open''"
    and s: "s \<in> set (signals st)" "s_id s = t_signal_id t" and dj: "d = join_trade t s"
    unfolding set_get_open_trades by blast
  from dj same have "t_id t = t_id r" by (simp add: join_trade_def)
  moreover from ids have "inj_on t_id (set (trade_executions st))"
    by (simp add: distinct_map)
  ultimately have "t = r" using t r by (simp add: inj_on_eq_iff)
  with op s dj show ?thesis by blast
qed

lemma row_has_dict:
  assumes "r \<in> set (trade_executions st)" "t_status r = ''open''"
    "s \<in> set (signals st)" "s_id s = t_signal_id r"
  shows "join_trade r s \<in> set (get_open_trades st)"
  using assms unfolding set_get_open_trades by blast

lemma close_row_twice:
  "close_row c i (close_row c i r) = close_row c i r"
  by (simp add: close_row_def)

lemma close_pass_row:
  assumes ids: "distinct (map t_id (trade_executions st))"
    and r: "r \<in> set (trade_executions st)"
  shows "fold (\<lambda>d. if fires d then close_row c (ot_id d) else (\<lambda>x. x)) (get_open_trades st) r =
     (if t_status r = ''open'' \<and>
         (\<exists>s\<in>set (signals st). s_id s = t_signal_id r \<and> fires (join_trade r s))
      then close_row c (t_id r) r else r)"
proof -
  let ?P = "\<lambda>d. ot_id d = t_id r \<and> fires d"
  let ?T = "close_row c (t_id r) r"
  have "fold (\<lambda>d. if fires d then close_row c (ot_id d) else (\<lambda>x. x)) (get_open_trades st) r =
      (if \<exists>d\<in>set (get_open_trades st). ?P d then ?T else r)"
  proof (rule fold_touch [where r = r and T = ?T and P = ?P])
    fix d x assume "d \<in> set (get_open_trades st)" and x: "x = r \<or> x = ?T"
    from x have idx: "t_id x = t_id r" by (auto simp add: close_row_def)
    show "(if fires d then close_row c (ot_id d) else (\<lambda>x. x)) x = (if ?P d then ?T else x)"
    proof (cases "fires d")
      case False
      then show ?thesis by simp
    next
      case True
      show ?thesis
      proof (cases "ot_id d = t_id r")
        case True
        with \<open>fires d\<close> x show ?thesis by (auto simp add: close_row_twice)
      next
        case False
        with \<open>fires d\<close> idx show ?thesis by (simp add: close_row_def)
      qed
    qed
  next
    show "r = r \<or> r = ?T" by simp
  qed
  moreover have "(\<exists>d\<in>set (get_open_trades st). ?P d) \<longleftrightarrow>
      (t_status r = ''open'' \<and>
         (\<exists>s\<in>set (signals st). s_id s = t_signal_id r \<and> fires (join_trade r s)))"
  proof
    assume "\<exists>d\<in>set (get_open_trades st). ?P d"
    then obtain d where d: "d \<in> set (get_open_trades st)" "ot_id d = t_id r" "fires d" by blast
    from dicts_of_row [OF ids r d(1) d(2)] d(3)
    show "t_status r = ''open'' \<and>
         (\<exists>s\<in>set (signals st). s_id s = t_signal_id r \<and> fires (join_trade r s))"
      by blast
  next
    assume a: "t_status r = ''open'' \<and>
         (\<exists>s\<in>set (signals st). s_id s = t_signal_id r \<and> fires (join_trade r s))"
    then obtain s where s: "s \<in> set (signals st)" "s_id s = t_signal_id r" "fires (join_trade r s)"
      by blast
    from a row_has_dict [OF r _ s(1) s(2)] have "join_trade r s \<in> set (get_open_trades st)"
      by simp
    moreover have "ot_id (join_trade r s) = t_id r" by (simp add: join_trade_def)
    ultimately show "\<exists>d\<in>set (get_open_trades st). ?P d" using s(3) by blast
  qed
  ultimately show ?thesis by simp
qed

lemma update_pass_row:
  assumes ids: "distinct (map t_id (trade_executions st))"
    and r: "r \<in> set (trade_executions st)"
    and price: "ticker_price X (t_exchange_name r) (t_symbol r) = Some p" "p \<noteq> 0"
  shows "fold (update_row X) (get_open_trades st) r =
     (if t_status r = ''open'' \<and> (\<exists>s\<in>set (signals st). s_id s = t_signal_id r)
      then r\<lparr>t_pnl := Some (if upper (t_side r) = ''LONG''
                             then (p - t_entry_price r) * t_quantity r
                             else (t_entry_price r - p) * t_quantity r),
             t_current_price := Some p\<rparr>
      else r)"
proof -
  let ?P = "\<lambda>d. ot_id d = t_id r"
  let ?T = "r\<lparr>t_pnl := Some (if upper (t_side r) = ''LONG''
                             then (p - t_entry_price r) * t_quantity r
                             else (t_entry_price r - p) * t_quantity r),
             t_current_price := Some p\<rparr>"
  have "fold (update_row X) (get_open_trades st) r =
      (if \<exists>d\<in>set (get_open_trades st). ?P d then ?T else r)"
  proof (rule fold_touch [where r = r and T = ?T and P = ?P])
    fix d x assume din: "d \<in> set (get_open_trades st)" and x: "x = r \<or> x = ?T"
    from x have idx: "t_id x = t_id r" by auto
    show "update_row X d x = (if ?P d then ?T else x)"
    proof (cases "ot_id d = t_id r")
      case False
      with idx show ?thesis by (simp add: update_row_def split: option.split)
    next
      case True
      from dicts_of_row [OF ids r din True] obtain s where "d = join_trade r s" by blast
      with price x True show ?thesis
        by (auto simp add: update_row_def join_trade_def)
    qed
  next
    show "r = r \<or> r = ?T" by simp
  qed
  moreover have "(\<exists>d\<in>set (get_open_trades st). ?P d) \<longleftrightarrow>
      (t_status r = ''open'' \<and> (\<exists>s\<in>set (signals st). s_id s = t_signal_id r))"
  proof
    assume "\<exists>d\<in>set (get_open_trades st). ?P d"
    then obtain d where d: "d \<in> set (get_open_trades st)" "ot_id d = t_id r" by blast
    from dicts_of_row [OF ids r d(1) d(2)]
    show "t_status r = ''open'' \<and> (\<exists>s\<in>set (signals st). s_id s = t_signal_id r)"
      by blast
  next
    assume a: "t_status r = ''open'' \<and> (\<exists>s\<in>set (signals st). s_id s = t_signal_id r)"
    then obtain s where s: "s \<in> set (signals st)" "s_id s = t_signal_id r" by blast
    from a row_has_dict [OF r _ s(1) s(2)] have "join_trade r s \<in> set (get_open_trades st)"
      by simp
    moreover have "ot_id (join_trade r s) = t_id r" by (simp add: join_trade_def)
    ultimately show "\<exists>d\<in>set (get_open_trades st). ?P d" by blast
  qed
  ultimately show ?thesis by simp
qed


lemma update_row_id: "t_id (update_row X d x) = t_id x"
  by (simp add: update_row_def split: option.split)

lemma fold_update_row_id: "t_id (fold (update_row X) ds x) = t_id x"
  by (induction ds arbitrary: x) (simp_all add: update_row_id)

lemma close_row_id: "t_id (close_row c i x) = t_id x"
  by (simp add: close_row_def)

lemma fold_close_row_id:
  "t_id (fold (\<lambda>d. if fires d then close_row c (ot_id d) else (\<lambda>x. x)) ds x) = t_id x"
  by (induction ds arbitrary: x) (simp_all add: close_row_id)

lemma monitor_positions_db:
  "db (monitor_positions X w) =
     (db w)\<lparr>trade_executions :=
        map (fold (update_row X) (get_open_trades (db w))) (trade_executions (db w))\<rparr>"
  unfolding monitor_positions_def
  by (rule fold_rowwise [where g = "\<lambda>c. update_row X"]) (rule update_step_db)

lemma check_stop_losses_db:
  "db (check_stop_losses X w) =
     (db w)\<lparr>trade_executions :=
        map (fold (\<lambda>d. if stop_loss_fires X d then close_row (clock (db w)) (ot_id d)
                        else (\<lambda>x. x))
               (get_open_trades (db w)))
            (trade_executions (db w))\<rparr>"
  unfolding check_stop_losses_def
  by (rule fold_rowwise
        [where g = "\<lambda>c d. if stop_loss_fires X d then close_row c (ot_id d) else (\<lambda>x. x)"])
     (rule stop_loss_step_db)

lemma check_take_profits_db:
  "db (check_take_profits X w) =
     (db w)\<lparr>trade_executions :=
        map (fold (\<lambda>d. if take_profit_fires X d then close_row (clock (db w)) (ot_id d)
                        else (\<lambda>x. x))
               (get_open_trades (db w)))
            (trade_executions (db w))\<rparr>"
  unfolding check_take_profits_def
  by (rule fold_rowwise
        [where g = "\<lambda>c d. if take_profit_fires X d then close_row c (ot_id d) else (\<lambda>x. x)"])
     (rule take_profit_step_db)

lemma rows_chain:
  assumes rows': "rows' = map K rows"
    and K: "\<And>x. t_id (K x) = t_id x"
    and ids: "distinct (map t_id rows)"
    and r: "r \<in> set rows"
  shows "K r \<in> set rows'" and "distinct (map t_id rows')"
    and "\<And>x. x \<in> set rows' \<Longrightarrow> t_id x = t_id r \<Longrightarrow> x = K r"
proof -
  show "K r \<in> set rows'" using rows' r by simp
  have "map t_id rows' = map t_id rows" using rows' K by simp
  with ids show "distinct (map t_id rows')" by simp
  fix x assume x: "x \<in> set rows'" "t_id x = t_id r"
  then obtain u where u: "u \<in> set rows" "x = K u" using rows' by auto
  with x K have "t_id u = t_id r" by simp
  moreover from ids have "inj_on t_id (set rows)" by (simp add: distinct_map)
  ultimately have "u = r" using u r by (simp add: inj_on_eq_iff)
  with u show "x = K r" by simp
qed


lemma cycle_final_row:
  assumes ids: "distinct (map t_id (trade_executions (db w)))"
    and r: "r \<in> set (trade_executions (db w))" and op: "t_status r = ''open''"
    and s: "s \<in> set (signals (db w))" "s_id s = t_signal_id r"
    and tp: "ticker_price X (t_exchange_name r) (t_symbol r) = Some p" and p: "p \<noteq> 0"
    and rm: "rm = r\<lparr>t_pnl := Some (if upper (t_side r) = ''LONG''
                             then (p - t_entry_price r) * t_quantity r
                             else (t_entry_price r - p) * t_quantity r),
             t_current_price := Some p\<rparr>"
    and x: "x \<in> set (trade_executions (db (trading_cycle X w)))" "t_id x = t_id r"
  shows "x = (if \<exists>s'\<in>set (signals (db w)). s_id s' = t_signal_id r \<and>
                   (stop_loss_fires X (join_trade rm s') \<or> take_profit_fires X (join_trade rm s'))
              then close_row (clock (db w)) (t_id r) rm else rm)"
proof -
  define w1 where "w1 = monitor_positions X w"
  define w2 where "w2 = check_stop_losses X w1"
  define w3 where "w3 = check_take_profits X w2"
  define F where "F = fold (update_row X) (get_open_trades (db w))"
  define G where "G = fold (\<lambda>d. if stop_loss_fires X d then close_row (clock (db w1)) (ot_id d)
                        else (\<lambda>x. x)) (get_open_trades (db w1))"
  define H where "H = fold (\<lambda>d. if take_profit_fires X d then close_row (clock (db w2)) (ot_id d)
                        else (\<lambda>x. x)) (get_open_trades (db w2))"
  have cyc: "trading_cycle X w = w3"
    by (simp add: trading_cycle_def w1_def w2_def w3_def)
  have db1: "db w1 = (db w)\<lparr>trade_executions := map F (trade_executions (db w))\<rparr>"
    unfolding w1_def F_def by (rule monitor_positions_db)
  have db2: "db w2 = (db w1)\<lparr>trade_executions := map G (trade_executions (db w1))\<rparr>"
    unfolding w2_def G_def by (rule check_stop_losses_db)
  have db3: "db w3 = (db w2)\<lparr>trade_executions := map H (trade_executions (db w2))\<rparr>"
    unfolding w3_def H_def by (rule check_take_profits_db)
  have rows1: "trade_executions (db w1) = map F (trade_executions (db w))"
    and sig1: "signals (db w1) = signals (db w)" and clk1: "clock (db w1) = clock (db w)"
    using db1 by simp_all
  have rows2: "trade_executions (db w2) = map G (trade_executions (db w1))"
    and sig2: "signals (db w2) = signals (db w)" and clk2: "clock (db w2) = clock (db w)"
    using db2 sig1 clk1 by simp_all
  have rows3: "trade_executions (db w3) = map H (trade_executions (db w2))"
    using db3 by simp
  have Fid: "\<And>y. t_id (F y) = t_id y" unfolding F_def by (rule fold_update_row_id)
  have Gid: "\<And>y. t_id (G y) = t_id y" unfolding G_def by (rule fold_close_row_id)
  have Hid: "\<And>y. t_id (H y) = t_id y" unfolding H_def by (rule fold_close_row_id)
  note c1 = rows_chain [OF rows1 Fid ids r]
  note c2 = rows_chain [OF rows2 Gid c1(2) c1(1)]
  note c3 = rows_chain [OF rows3 Hid c2(2) c2(1)]
  have Fr: "F r = rm"
    unfolding F_def using update_pass_row [OF ids r tp p] op s rm by auto
  have rm_fields: "t_status rm = ''open''" "t_signal_id rm = t_signal_id r" "t_id rm = t_id r"
    using rm op by simp_all
  let ?sl = "\<exists>s'\<in>set (signals (db w)). s_id s' = t_signal_id r \<and> stop_loss_fires X (join_trade rm s')"
  let ?tp = "\<exists>s'\<in>set (signals (db w)). s_id s' = t_signal_id r \<and> take_profit_fires X (join_trade rm s')"
  let ?closed = "close_row (clock (db w)) (t_id r) rm"
  have "G (F r) = (if t_status (F r) = ''open'' \<and>
         (\<exists>s'\<in>set (signals (db w1)). s_id s' = t_signal_id (F r)
             \<and> stop_loss_fires X (join_trade (F r) s'))
      then close_row (clock (db w1)) (t_id (F r)) (F r) else F r)"
    unfolding G_def by (rule close_pass_row [OF c1(2) c1(1)])
  then have Gr: "G rm = (if ?sl then ?closed else rm)"
    unfolding Fr sig1 clk1 rm_fields by simp
  have closed_status: "t_status ?closed = ''closed''"
    by (simp add: close_row_def rm_fields)
  have Hy: "H (G (F r)) = (if t_status (G (F r)) = ''open'' \<and>
         (\<exists>s'\<in>set (signals (db w2)). s_id s' = t_signal_id (G (F r))
             \<and> take_profit_fires X (join_trade (G (F r)) s'))
      then close_row (clock (db w2)) (t_id (G (F r))) (G (F r)) else G (F r))"
    unfolding H_def by (rule close_pass_row [OF c2(2) c2(1)])
  have "t_id x = t_id (G (F r))" using x(2) Gid Fid by simp
  with x(1) have xfin: "x = H (G (F r))"
    unfolding cyc by (rule c3(3))
  show ?thesis
  proof (cases ?sl)
    case True
    with Gr have g: "G (F r) = ?closed" unfolding Fr by simp
    from Hy have "H (G (F r)) = ?closed"
      unfolding g closed_status by simp
    with xfin True show ?thesis by auto
  next
    case False
    with Gr have g: "G (F r) = rm" unfolding Fr by simp
    from Hy have "H (G (F r)) = (if ?tp then ?closed else rm)"
      unfolding g sig2 clk2 rm_fields by simp
    with xfin False show ?thesis by auto
  qed
qed


lemma monitor_row_member:
  assumes ids: "distinct (map t_id (trade_executions (db w)))"
    and r: "r \<in> set (trade_executions (db w))" and op: "t_status r = ''open''"
    and s: "s \<in> set (signals (db w))" "s_id s = t_signal_id r"
    and tp: "ticker_price X (t_exchange_name r) (t_symbol r) = Some p" and p: "p \<noteq> 0"
  shows "r\<lparr>t_pnl := Some (if upper (t_side r) = ''LONG''
                             then (p - t_entry_price r) * t_quantity r
                             else (t_entry_price r - p) * t_quantity r),
             t_current_price := Some p\<rparr>
           \<in> set (trade_executions (db (monitor_positions X w)))"
proof -
  have "fold (update_row X) (get_open_trades (db w)) r \<in>
          set (trade_executions (db (monitor_positions X w)))"
    using r by (simp add: monitor_positions_db)
  moreover have "fold (update_row X) (get_open_trades (db w)) r =
      r\<lparr>t_pnl := Some (if upper (t_side r) = ''LONG''
                             then (p - t_entry_price r) * t_quantity r
                             else (t_entry_price r - p) * t_quantity r),
             t_current_price := Some p\<rparr>"
    using update_pass_row [OF ids r tp p] op s by auto
  ultimately show ?thesis by simp
qed

text \<open>
  What \<open>monitor_positions\<close> does for a row whose side reads long or short, when a price is
  obtained. Take a store in which the trade ids are distinct, an open trade of it whose
  signal is in the store, and an exchange library whose ticker gives a price other than 0
  for the trade's symbol on one of the five supported exchanges. Then after
  \<open>monitor_positions\<close> the row of the trade carries that price as current price, and as
  profit and loss (price - entry) * quantity when its side is long and
  (entry - price) * quantity when its side is short, the side being compared without regard
  to letter case. Nothing here depends on the stop-loss or the take-profit of the signal:
  at the end of the whole cycle a trade that no trigger closed still carries these values.
\<close>

theorem monitoring_persists_pnl:
  assumes ids: "distinct (map t_id (trade_executions (db w)))"
    and r: "r \<in> set (trade_executions (db w))" and op: "t_status r = ''open''"
    and s: "s \<in> set (signals (db w))" "s_id s = t_signal_id r"
    and ex: "t_exchange_name r \<in> set supported_exchanges"
    and tick: "fetch_ticker X (t_exchange_name r) (t_symbol r) = Inr (Some p)" and p: "p \<noteq> 0"
  shows "(upper (t_side r) = ''LONG'' \<longrightarrow>
            r\<lparr>t_pnl := Some ((p - t_entry_price r) * t_quantity r), t_current_price := Some p\<rparr>
              \<in> set (trade_executions (db (monitor_positions X w))))
       \<and> (upper (t_side r) = ''SHORT'' \<longrightarrow>
            r\<lparr>t_pnl := Some ((t_entry_price r - p) * t_quantity r), t_current_price := Some p\<rparr>
              \<in> set (trade_executions (db (monitor_positions X w))))
       \<and> (\<forall>x\<in>set (trade_executions (db (trading_cycle X w))).
            t_id x = t_id r \<longrightarrow> t_status x = ''open'' \<longrightarrow>
               t_current_price x = Some p
               \<and> (upper (t_side r) = ''LONG'' \<longrightarrow>
                     t_pnl x = Some ((p - t_entry_price r) * t_quantity r))
               \<and> (upper (t_side r) = ''SHORT'' \<longrightarrow>
                     t_pnl x = Some ((t_entry_price r - p) * t_quantity r)))"
proof -
  have tp: "ticker_price X (t_exchange_name r) (t_symbol r) = Some p"
    using ex tick by (simp add: ticker_price_def)
  define rm where "rm = r\<lparr>t_pnl := Some (if upper (t_side r) = ''LONG''
                             then (p - t_entry_price r) * t_quantity r
                             else (t_entry_price r - p) * t_quantity r),
             t_current_price := Some p\<rparr>"
  have m: "rm \<in> set (trade_executions (db (monitor_positions X w)))"
    unfolding rm_def by (rule monitor_row_member [OF ids r op s tp p])
  have a: "upper (t_side r) = ''LONG'' \<longrightarrow>
            r\<lparr>t_pnl := Some ((p - t_entry_price r) * t_quantity r), t_current_price := Some p\<rparr>
              \<in> set (trade_executions (db (monitor_positions X w)))"
  proof
    assume "upper (t_side r) = ''LONG''"
    then have "rm = r\<lparr>t_pnl := Some ((p - t_entry_price r) * t_quantity r),
                       t_current_price := Some p\<rparr>"
      by (simp add: rm_def)
    with m show "r\<lparr>t_pnl := Some ((p - t_entry_price r) * t_quantity r),
                    t_current_price := Some p\<rparr>
              \<in> set (trade_executions (db (monitor_positions X w)))"
      by simp
  qed
  have b: "upper (t_side r) = ''SHORT'' \<longrightarrow>
            r\<lparr>t_pnl := Some ((t_entry_price r - p) * t_quantity r), t_current_price := Some p\<rparr>
              \<in> set (trade_executions (db (monitor_positions X w)))"
  proof
    assume "upper (t_side r) = ''SHORT''"
    then have "rm = r\<lparr>t_pnl := Some ((t_entry_price r - p) * t_quantity r),
                       t_current_price := Some p\<rparr>"
      by (simp add: rm_def)
    with m show "r\<lparr>t_pnl := Some ((t_entry_price r - p) * t_quantity r),
                    t_current_price := Some p\<rparr>
              \<in> set (trade_executions (db (monitor_positions X w)))"
      by simp
  qed
  have c: "\<forall>x\<in>set (trade_executions (db (trading_cycle X w))).
            t_id x = t_id r \<longrightarrow> t_status x = ''open'' \<longrightarrow>
               t_current_price x = Some p
               \<and> (upper (t_side r) = ''LONG'' \<longrightarrow>
                     t_pnl x = Some ((p - t_entry_price r) * t_quantity r))
               \<and> (upper (t_side r) = ''SHORT'' \<longrightarrow>
                     t_pnl x = Some ((t_entry_price r - p) * t_quantity r))"
  proof (intro ballI impI)
    fix x assume x: "x \<in> set (trade_executions (db (trading_cycle X w)))" "t_id x = t_id r"
      and xo: "t_status x = ''open''"
    have fin: "x = (if \<exists>s'\<in>set (signals (db w)). s_id s' = t_signal_id r \<and>
                   (stop_loss_fires X (join_trade rm s') \<or> take_profit_fires X (join_trade rm s'))
              then close_row (clock (db w)) (t_id r) rm else rm)"
      by (rule cycle_final_row [OF ids r op s tp p rm_def x])
    have "t_status (close_row (clock (db w)) (t_id r) rm) = ''closed''"
      by (simp add: close_row_def rm_def)
    with fin xo have "x = rm" by (auto split: if_splits)
    then show "t_current_price x = Some p
               \<and> (upper (t_side r) = ''LONG'' \<longrightarrow>
                     t_pnl x = Some ((p - t_entry_price r) * t_quantity r))
               \<and> (upper (t_side r) = ''SHORT'' \<longrightarrow>
                     t_pnl x = Some ((t_entry_price r - p) * t_quantity r))"
      by (auto simp add: rm_def)
  qed
  from a b c show ?thesis by blast
qed

text \<open>The definitions by which a cycle is evaluated on a concrete store.\<close>

lemmas cycle_eval =
  trading_cycle_def check_take_profits_def check_stop_losses_def monitor_positions_def
  get_open_trades_def join_trade_def stop_loss_step_def take_profit_step_def
  AutoTrader_update_trade_pnl_def get_current_price_def supported_exchanges_def
  called_def log_info_def log_error_def AutoTrader_close_position_def
  FuturesTrader_close_position_def TradeModel_close_trade_def TradeModel_update_trade_pnl_def
  upper_def upper_char_def Let_def

text \<open>The theorem for a long at 110 and a short at 90, both entered at 100 with quantity 2,
  for a long at its entry price, and for the long at 110 at the end of a cycle in which no
  trigger is set.\<close>

theorem monitoring_persists_pnl_witness:
  "(example_trade 1 ''long'' ''open'')\<lparr>t_pnl := Some 20, t_current_price := Some 110\<rparr>
     \<in> set (trade_executions (db (monitor_positions (example_ccxt (Inr []) (Inr (Some 110)))
           (example_world (example_store [example_signal ''processed'' None None]
                             [example_trade 1 ''long'' ''open''])))))
   \<and> (example_trade 1 ''short'' ''open'')\<lparr>t_pnl := Some 20, t_current_price := Some 90\<rparr>
     \<in> set (trade_executions (db (monitor_positions (example_ccxt (Inr []) (Inr (Some 90)))
           (example_world (example_store [example_signal ''processed'' None None]
                             [example_trade 1 ''short'' ''open''])))))
   \<and> (example_trade 1 ''long'' ''open'')\<lparr>t_pnl := Some 0, t_current_price := Some 100\<rparr>
     \<in> set (trade_executions (db (monitor_positions (example_ccxt (Inr []) (Inr (Some 100)))
           (example_world (example_store [example_signal ''processed'' None None]
                             [example_trade 1 ''long'' ''open''])))))
   \<and> (\<exists>x. x \<in> set (trade_executions (db (trading_cycle (example_ccxt (Inr []) (Inr (Some 110)))
           (example_world (example_store [example_signal ''processed'' None None]
                             [example_trade 1 ''long'' ''open''])))))
         \<and> t_id x = 1 \<and> t_status x = ''open''
         \<and> t_current_price x = Some 110 \<and> t_pnl x = Some 20)"
proof -
  let ?s = "example_signal ''processed'' None None"
  let ?long = "example_trade 1 ''long'' ''open''"
  let ?short = "example_trade 1 ''short'' ''open''"
  let ?wl = "example_world (example_store [?s] [?long])"
  let ?ws = "example_world (example_store [?s] [?short])"
  have long: "distinct (map t_id (trade_executions (db ?wl)))"
    "?long \<in> set (trade_executions (db ?wl))" "t_status ?long = ''open''"
    "?s \<in> set (signals (db ?wl))" "s_id ?s = t_signal_id ?long"
    "t_exchange_name ?long \<in> set supported_exchanges"
    by (simp_all add: supported_exchanges_def)
  have short: "distinct (map t_id (trade_executions (db ?ws)))"
    "?short \<in> set (trade_executions (db ?ws))" "t_status ?short = ''open''"
    "?s \<in> set (signals (db ?ws))" "s_id ?s = t_signal_id ?short"
    "t_exchange_name ?short \<in> set supported_exchanges"
    by (simp_all add: supported_exchanges_def)
  have up: "upper (t_side ?long) = ''LONG''" "upper (t_side ?short) = ''SHORT''"
    by (simp_all add: upper_def upper_char_def)
  have a: "?long\<lparr>t_pnl := Some 20, t_current_price := Some 110\<rparr>
     \<in> set (trade_executions (db (monitor_positions (example_ccxt (Inr []) (Inr (Some 110))) ?wl)))"
    using monitoring_persists_pnl [OF long, where X = "example_ccxt (Inr []) (Inr (Some 110))"
        and p = 110, THEN conjunct1] up(1)
    by simp
  have b: "?short\<lparr>t_pnl := Some 20, t_current_price := Some 90\<rparr>
     \<in> set (trade_executions (db (monitor_positions (example_ccxt (Inr []) (Inr (Some 90))) ?ws)))"
    using monitoring_persists_pnl [OF short, where X = "example_ccxt (Inr []) (Inr (Some 90))"
        and p = 90, THEN conjunct2, THEN conjunct1] up(2)
    by simp
  have c: "?long\<lparr>t_pnl := Some 0, t_current_price := Some 100\<rparr>
     \<in> set (trade_executions (db (monitor_positions (example_ccxt (Inr []) (Inr (Some 100))) ?wl)))"
    using monitoring_persists_pnl [OF long, where X = "example_ccxt (Inr []) (Inr (Some 100))"
        and p = 100, THEN conjunct1] up(1)
    by simp
  have d: "\<exists>x. x \<in> set (trade_executions (db (trading_cycle
                (example_ccxt (Inr []) (Inr (Some 110))) ?wl)))
         \<and> t_id x = 1 \<and> t_status x = ''open''
         \<and> t_current_price x = Some 110 \<and> t_pnl x = Some 20"
  proof -
    let ?x = "?long\<lparr>t_pnl := Some 20, t_current_price := Some 110\<rparr>"
    have m: "?x \<in> set (trade_executions (db (trading_cycle
                (example_ccxt (Inr []) (Inr (Some 110))) ?wl)))"
      by (simp add: cycle_eval)
    have i: "t_id ?x = t_id ?long" and o: "t_status ?x = ''open''"
      by simp_all
    note T = monitoring_persists_pnl [OF long, where X = "example_ccxt (Inr []) (Inr (Some 110))"
        and p = 110, THEN conjunct2, THEN conjunct2, rule_format, OF _ _ m i o]
    have "t_current_price ?x = Some 110" and "t_pnl ?x = Some 20"
      using T up(1) by simp_all
    with m i o show ?thesis by (intro exI [of _ ?x]) simp
  qed
  from a b c d show ?thesis by (intro conjI)
qed

lemma stop_loss_fires_join:
  assumes "ticker_price X (t_exchange_name r) (t_symbol r) = Some p" "p \<noteq> 0"
    and "t_exchange_name rm = t_exchange_name r" "t_symbol rm = t_symbol r"
        "t_side rm = t_side r"
  shows "stop_loss_fires X (join_trade rm s) \<longleftrightarrow>
     (\<exists>sl. s_stop_loss s = Some sl \<and> sl \<noteq> 0 \<and>
        (upper (t_side r) = ''LONG'' \<and> p \<le> sl \<or> upper (t_side r) = ''SHORT'' \<and> sl \<le> p))"
  using assms by (cases "s_stop_loss s") (simp_all add: stop_loss_fires_def join_trade_def)

lemma take_profit_fires_join:
  assumes "ticker_price X (t_exchange_name r) (t_symbol r) = Some p" "p \<noteq> 0"
    and "t_exchange_name rm = t_exchange_name r" "t_symbol rm = t_symbol r"
        "t_side rm = t_side r"
  shows "take_profit_fires X (join_trade rm s) \<longleftrightarrow>
     (\<exists>tp. s_take_profit s = Some tp \<and> tp \<noteq> 0 \<and>
        (upper (t_side r) = ''LONG'' \<and> tp \<le> p \<or> upper (t_side r) = ''SHORT'' \<and> p \<le> tp))"
  using assms by (cases "s_take_profit s") (simp_all add: take_profit_fires_def join_trade_def)

lemma cycle_keeps_ids:
  "map t_id (trade_executions (db (trading_cycle X w))) = map t_id (trade_executions (db w))"
  by (simp add: trading_cycle_def check_take_profits_db check_stop_losses_db
      monitor_positions_db fold_close_row_id fold_update_row_id)

text \<open>
  What the two checks do for a row whose side reads long or short, when a price is
  obtained. With the same assumptions, and the signal ids distinct, one cycle of the
  engine leaves exactly the rows it found, and the row of the trade is \<open>closed\<close> at the end of
  the cycle if and only if, for a long, the price is at most the stop-loss or at least the
  take-profit, and for a short, the price is at least the stop-loss or at most the
  take-profit; otherwise it is still \<open>open\<close>. A stop-loss or take-profit counts when it is
  set, that is, present and not 0. The comparisons include the boundary.
\<close>

theorem stop_loss_take_profit_trigger:
  assumes ids: "distinct (map t_id (trade_executions (db w)))"
    and sids: "distinct (map s_id (signals (db w)))"
    and r: "r \<in> set (trade_executions (db w))" and op: "t_status r = ''open''"
    and s: "s \<in> set (signals (db w))" "s_id s = t_signal_id r"
    and ex: "t_exchange_name r \<in> set supported_exchanges"
    and tick: "fetch_ticker X (t_exchange_name r) (t_symbol r) = Inr (Some p)" and p: "p \<noteq> 0"
  shows "(\<exists>x\<in>set (trade_executions (db (trading_cycle X w))). t_id x = t_id r)
       \<and> (\<forall>x\<in>set (trade_executions (db (trading_cycle X w))). t_id x = t_id r \<longrightarrow>
            (t_status x = ''closed'' \<or> t_status x = ''open'')
            \<and> (upper (t_side r) = ''LONG'' \<longrightarrow>
                 (t_status x = ''closed'' \<longleftrightarrow>
                    (\<exists>sl. s_stop_loss s = Some sl \<and> sl \<noteq> 0 \<and> p \<le> sl)
                    \<or> (\<exists>tp. s_take_profit s = Some tp \<and> tp \<noteq> 0 \<and> tp \<le> p)))
            \<and> (upper (t_side r) = ''SHORT'' \<longrightarrow>
                 (t_status x = ''closed'' \<longleftrightarrow>
                    (\<exists>sl. s_stop_loss s = Some sl \<and> sl \<noteq> 0 \<and> sl \<le> p)
                    \<or> (\<exists>tp. s_take_profit s = Some tp \<and> tp \<noteq> 0 \<and> p \<le> tp))))"
proof -
  have tp: "ticker_price X (t_exchange_name r) (t_symbol r) = Some p"
    using ex tick by (simp add: ticker_price_def)
  define rm where "rm = r\<lparr>t_pnl := Some (if upper (t_side r) = ''LONG''
                             then (p - t_entry_price r) * t_quantity r
                             else (t_entry_price r - p) * t_quantity r),
             t_current_price := Some p\<rparr>"
  have rmf: "t_exchange_name rm = t_exchange_name r" "t_symbol rm = t_symbol r"
    "t_side rm = t_side r" "t_status rm = ''open''"
    using op by (simp_all add: rm_def)
  define SL where "SL \<longleftrightarrow> (\<exists>sl. s_stop_loss s = Some sl \<and> sl \<noteq> 0 \<and>
        (upper (t_side r) = ''LONG'' \<and> p \<le> sl \<or> upper (t_side r) = ''SHORT'' \<and> sl \<le> p))"
  define TP where "TP \<longleftrightarrow> (\<exists>tp. s_take_profit s = Some tp \<and> tp \<noteq> 0 \<and>
        (upper (t_side r) = ''LONG'' \<and> tp \<le> p \<or> upper (t_side r) = ''SHORT'' \<and> p \<le> tp))"
  have only_s: "\<And>s'. s' \<in> set (signals (db w)) \<Longrightarrow> s_id s' = t_signal_id r \<Longrightarrow> s' = s"
  proof -
    fix s' assume "s' \<in> set (signals (db w))" "s_id s' = t_signal_id r"
    moreover from sids have "inj_on s_id (set (signals (db w)))" by (simp add: distinct_map)
    ultimately show "s' = s"
      using s inj_onD [of s_id "set (signals (db w))" s' s] by simp
  qed
  have fires: "(\<exists>s'\<in>set (signals (db w)). s_id s' = t_signal_id r \<and>
                   (stop_loss_fires X (join_trade rm s') \<or> take_profit_fires X (join_trade rm s')))
               \<longleftrightarrow> SL \<or> TP"
  proof -
    have "(\<exists>s'\<in>set (signals (db w)). s_id s' = t_signal_id r \<and>
                   (stop_loss_fires X (join_trade rm s') \<or> take_profit_fires X (join_trade rm s')))
          \<longleftrightarrow> (stop_loss_fires X (join_trade rm s) \<or> take_profit_fires X (join_trade rm s))"
      using only_s s by blast
    then show ?thesis
      unfolding SL_def TP_def
        stop_loss_fires_join [OF tp p rmf(1) rmf(2) rmf(3)]
        take_profit_fires_join [OF tp p rmf(1) rmf(2) rmf(3)] .
  qed
  have ex_row: "\<exists>x\<in>set (trade_executions (db (trading_cycle X w))). t_id x = t_id r"
  proof -
    from r have "t_id r \<in> set (map t_id (trade_executions (db w)))" by simp
    then have "t_id r \<in> set (map t_id (trade_executions (db (trading_cycle X w))))"
      by (simp only: cycle_keeps_ids)
    then show ?thesis by auto
  qed
  have all_rows: "\<forall>x\<in>set (trade_executions (db (trading_cycle X w))). t_id x = t_id r \<longrightarrow>
            (t_status x = ''closed'' \<or> t_status x = ''open'')
            \<and> (upper (t_side r) = ''LONG'' \<longrightarrow>
                 (t_status x = ''closed'' \<longleftrightarrow>
                    (\<exists>sl. s_stop_loss s = Some sl \<and> sl \<noteq> 0 \<and> p \<le> sl)
                    \<or> (\<exists>tp. s_take_profit s = Some tp \<and> tp \<noteq> 0 \<and> tp \<le> p)))
            \<and> (upper (t_side r) = ''SHORT'' \<longrightarrow>
                 (t_status x = ''closed'' \<longleftrightarrow>
                    (\<exists>sl. s_stop_loss s = Some sl \<and> sl \<noteq> 0 \<and> sl \<le> p)
                    \<or> (\<exists>tp. s_take_profit s = Some tp \<and> tp \<noteq> 0 \<and> p \<le> tp)))"
  proof (intro ballI impI)
    fix x assume x: "x \<in> set (trade_executions (db (trading_cycle X w)))" "t_id x = t_id r"
    have "x = (if \<exists>s'\<in>set (signals (db w)). s_id s' = t_signal_id r \<and>
                   (stop_loss_fires X (join_trade rm s') \<or> take_profit_fires X (join_trade rm s'))
              then close_row (clock (db w)) (t_id r) rm else rm)"
      by (rule cycle_final_row [OF ids r op s tp p rm_def x])
    then have fin: "x = (if SL \<or> TP then close_row (clock (db w)) (t_id r) rm else rm)"
      unfolding fires .
    have cl: "t_status (close_row (clock (db w)) (t_id r) rm) = ''closed''"
      by (simp add: close_row_def rm_def)
    have st: "t_status x = ''closed'' \<longleftrightarrow> SL \<or> TP"
      using fin cl rmf(4) by (cases "SL \<or> TP") simp_all
    have st2: "t_status x = ''closed'' \<or> t_status x = ''open''"
      using fin cl rmf(4) by (cases "SL \<or> TP") simp_all
    have long: "upper (t_side r) = ''LONG'' \<Longrightarrow>
        (SL \<or> TP) = ((\<exists>sl. s_stop_loss s = Some sl \<and> sl \<noteq> 0 \<and> p \<le> sl)
                    \<or> (\<exists>tp. s_take_profit s = Some tp \<and> tp \<noteq> 0 \<and> tp \<le> p))"
      unfolding SL_def TP_def by simp
    have short: "upper (t_side r) = ''SHORT'' \<Longrightarrow>
        (SL \<or> TP) = ((\<exists>sl. s_stop_loss s = Some sl \<and> sl \<noteq> 0 \<and> sl \<le> p)
                    \<or> (\<exists>tp. s_take_profit s = Some tp \<and> tp \<noteq> 0 \<and> p \<le> tp))"
      unfolding SL_def TP_def by simp
    from st st2 long short
    show "(t_status x = ''closed'' \<or> t_status x = ''open'')
            \<and> (upper (t_side r) = ''LONG'' \<longrightarrow>
                 (t_status x = ''closed'' \<longleftrightarrow>
                    (\<exists>sl. s_stop_loss s = Some sl \<and> sl \<noteq> 0 \<and> p \<le> sl)
                    \<or> (\<exists>tp. s_take_profit s = Some tp \<and> tp \<noteq> 0 \<and> tp \<le> p)))
            \<and> (upper (t_side r) = ''SHORT'' \<longrightarrow>
                 (t_status x = ''closed'' \<longleftrightarrow>
                    (\<exists>sl. s_stop_loss s = Some sl \<and> sl \<noteq> 0 \<and> sl \<le> p)
                    \<or> (\<exists>tp. s_take_profit s = Some tp \<and> tp \<noteq> 0 \<and> p \<le> tp)))"
      by simp
  qed
  from ex_row all_rows show ?thesis by (rule conjI)
qed

text \<open>The theorem for a long with stop-loss 95 at the prices 95 and 95.01, and for a short
  with take-profit 90 at the price 90.\<close>

theorem stop_loss_take_profit_trigger_witness:
  "(\<exists>x. x \<in> set (trade_executions (db (trading_cycle (example_ccxt (Inr []) (Inr (Some 95)))
             (example_world (example_store [example_signal ''processed'' (Some 95) None]
                               [example_trade 1 ''long'' ''open''])))))
         \<and> t_id x = 1 \<and> t_status x = ''closed'')
   \<and> (\<exists>x. x \<in> set (trade_executions (db (trading_cycle
             (example_ccxt (Inr []) (Inr (Some (9501 / 100))))
             (example_world (example_store [example_signal ''processed'' (Some 95) None]
                               [example_trade 1 ''long'' ''open''])))))
         \<and> t_id x = 1 \<and> t_status x = ''open'')
   \<and> (\<exists>x. x \<in> set (trade_executions (db (trading_cycle (example_ccxt (Inr []) (Inr (Some 90)))
             (example_world (example_store [example_signal ''processed'' None (Some 90)]
                               [example_trade 1 ''short'' ''open''])))))
         \<and> t_id x = 1 \<and> t_status x = ''closed'')"
proof -
  let ?sl = "example_signal ''processed'' (Some 95) None"
  let ?tp = "example_signal ''processed'' None (Some 90)"
  let ?long = "example_trade 1 ''long'' ''open''"
  let ?short = "example_trade 1 ''short'' ''open''"
  let ?wl = "example_world (example_store [?sl] [?long])"
  let ?ws = "example_world (example_store [?tp] [?short])"
  have long: "distinct (map t_id (trade_executions (db ?wl)))"
    "distinct (map s_id (signals (db ?wl)))"
    "?long \<in> set (trade_executions (db ?wl))" "t_status ?long = ''open''"
    "?sl \<in> set (signals (db ?wl))" "s_id ?sl = t_signal_id ?long"
    "t_exchange_name ?long \<in> set supported_exchanges"
    by (simp_all add: supported_exchanges_def)
  have short: "distinct (map t_id (trade_executions (db ?ws)))"
    "distinct (map s_id (signals (db ?ws)))"
    "?short \<in> set (trade_executions (db ?ws))" "t_status ?short = ''open''"
    "?tp \<in> set (signals (db ?ws))" "s_id ?tp = t_signal_id ?short"
    "t_exchange_name ?short \<in> set supported_exchanges"
    by (simp_all add: supported_exchanges_def)
  have up: "upper (t_side ?long) = ''LONG''" "upper (t_side ?short) = ''SHORT''"
    by (simp_all add: upper_def upper_char_def)
  have a: "\<exists>x. x \<in> set (trade_executions (db (trading_cycle
                (example_ccxt (Inr []) (Inr (Some 95))) ?wl)))
         \<and> t_id x = 1 \<and> t_status x = ''closed''"
  proof -
    have t: "fetch_ticker (example_ccxt (Inr []) (Inr (Some 95)))
               (t_exchange_name ?long) (t_symbol ?long) = Inr (Some 95)" "(95::real) \<noteq> 0"
      by simp_all
    note T = stop_loss_take_profit_trigger [OF long t]
    from T [THEN conjunct1] obtain x where x: "x \<in> set (trade_executions (db (trading_cycle
                (example_ccxt (Inr []) (Inr (Some 95))) ?wl)))" "t_id x = t_id ?long" ..
    note C = T [THEN conjunct2, rule_format, OF x]
    from C [THEN conjunct2, THEN conjunct1, rule_format, OF up(1)]
    have "t_status x = ''closed''" by simp
    moreover from x(2) have "t_id x = 1" by simp
    ultimately show ?thesis using x(1) by (intro exI conjI)
  qed
  have b: "\<exists>x. x \<in> set (trade_executions (db (trading_cycle
                (example_ccxt (Inr []) (Inr (Some (9501 / 100)))) ?wl)))
         \<and> t_id x = 1 \<and> t_status x = ''open''"
  proof -
    have t: "fetch_ticker (example_ccxt (Inr []) (Inr (Some (9501 / 100))))
               (t_exchange_name ?long) (t_symbol ?long) = Inr (Some (9501 / 100))"
      "(9501 / 100 :: real) \<noteq> 0"
      by simp_all
    note T = stop_loss_take_profit_trigger [OF long t]
    from T [THEN conjunct1] obtain x where x: "x \<in> set (trade_executions (db (trading_cycle
                (example_ccxt (Inr []) (Inr (Some (9501 / 100)))) ?wl)))" "t_id x = t_id ?long" ..
    note C = T [THEN conjunct2, rule_format, OF x]
    from C [THEN conjunct2, THEN conjunct1, rule_format, OF up(1)]
    have "t_status x \<noteq> ''closed''" by simp
    with C [THEN conjunct1] have "t_status x = ''open''" by simp
    moreover from x(2) have "t_id x = 1" by simp
    ultimately show ?thesis using x(1) by (intro exI conjI)
  qed
  have c: "\<exists>x. x \<in> set (trade_executions (db (trading_cycle
                (example_ccxt (Inr []) (Inr (Some 90))) ?ws)))
         \<and> t_id x = 1 \<and> t_status x = ''closed''"
  proof -
    have t: "fetch_ticker (example_ccxt (Inr []) (Inr (Some 90)))
               (t_exchange_name ?short) (t_symbol ?short) = Inr (Some 90)" "(90::real) \<noteq> 0"
      by simp_all
    note T = stop_loss_take_profit_trigger [OF short t]
    from T [THEN conjunct1] obtain x where x: "x \<in> set (trade_executions (db (trading_cycle
                (example_ccxt (Inr []) (Inr (Some 90))) ?ws)))" "t_id x = t_id ?short" ..
    note C = T [THEN conjunct2, rule_format, OF x]
    from C [THEN conjunct2, THEN conjunct2, rule_format, OF up(2)]
    have "t_status x = ''closed''" by simp
    moreover from x(2) have "t_id x = 1" by simp
    ultimately show ?thesis using x(1) by (intro exI conjI)
  qed
  from a b c show ?thesis by (intro conjI)
qed

subsection \<open>The positions that are recorded, and the prices that are obtained\<close>

text \<open>\<open>TradeModel.create_trade\<close> records the side of a trade as \<open>BUY\<close> or \<open>SELL\<close>, and for a
  trade with one of these sides neither check of the engine ever closes.\<close>

lemma insert_trades_sides:
  "r \<in> set (trade_executions (insert_trades sg u symb side q ep es st)) \<Longrightarrow>
     r \<in> set (trade_executions st) \<or> t_side r = side"
proof (induction es arbitrary: st)
  case Nil
  then show ?case by simp
next
  case (Cons e es)
  from Cons.IH [OF Cons.prems [unfolded insert_trades.simps]]
  show ?case by auto
qed

lemma create_trade_sides:
  assumes "r \<in> set (trade_executions (create_trade u e sg symb act ep q st))"
  shows "r \<in> set (trade_executions st) \<or> t_side r = ''BUY'' \<or> t_side r = ''SELL''"
proof (cases "upper act \<in> set [''LONG'', ''BUY'']")
  case True
  with assms have "r \<in> set (trade_executions (insert_trades sg u symb ''BUY'' q ep
      (filter (\<lambda>x. e_id x = e) (exchanges st)) st))"
    by (simp add: create_trade_def)
  from insert_trades_sides [OF this] show ?thesis by blast
next
  case False
  with assms have "r \<in> set (trade_executions (insert_trades sg u symb ''SELL'' q ep
      (filter (\<lambda>x. e_id x = e) (exchanges st)) st))"
    by (simp add: create_trade_def)
  from insert_trades_sides [OF this] show ?thesis by blast
qed

lemma recorded_side_never_fires:
  assumes "ot_side d = ''BUY'' \<or> ot_side d = ''SELL''"
  shows "\<not> stop_loss_fires X d \<and> \<not> take_profit_fires X d"
proof -
  from assms have "upper (ot_side d) \<noteq> ''LONG''" and "upper (ot_side d) \<noteq> ''SHORT''"
    by (auto simp add: upper_def upper_char_def)
  then show ?thesis
    by (simp add: stop_loss_fires_def take_profit_fires_def split: option.split)
qed

lemmas record_eval = create_trade_def next_trade_id_def

text \<open>
  Claim C4 fails on the code in two ways. A long recorded by \<open>create_trade\<close> has the side
  \<open>BUY\<close>, which \<open>update_trade_pnl\<close> does not read as a long: entered at 100 with quantity 2,
  at the price 110 its profit and loss is stored as -20, where the claim says +20. And with
  the synchronous client, whose awaited answer is a \<open>TypeError\<close>, no price is obtained: an
  open long, which the engine does visit, keeps the current price and the profit and loss
  it had, and only the error is logged.
\<close>

theorem recorded_long_gets_negated_pnl:
  "map t_side (trade_executions
       (create_trade 1 1 1 ''BTCUSDT'' ''long'' 100 2 (recording_store None None))) = [''BUY'']
   \<and> map (\<lambda>r. (t_current_price r, t_pnl r))
         (trade_executions (db (monitor_positions (example_ccxt (Inr []) (Inr (Some 110)))
            (example_world
               (create_trade 1 1 1 ''BTCUSDT'' ''long'' 100 2 (recording_store None None))))))
       = [(Some 110, Some (- 20))]
   \<and> get_open_trades (example_store [example_signal ''processed'' None None]
                           [example_trade 1 ''long'' ''open'']) \<noteq> []
   \<and> trade_executions (db (monitor_positions synchronous_ccxt
         (example_world (example_store [example_signal ''processed'' None None]
                           [example_trade 1 ''long'' ''open'']))))
       = [example_trade 1 ''long'' ''open'']
   \<and> logged (monitor_positions synchronous_ccxt
         (example_world (example_store [example_signal ''processed'' None None]
                           [example_trade 1 ''long'' ''open''])))
       = [LogError ''Error getting current price'' not_awaitable]"
  by (simp add: cycle_eval record_eval)

text \<open>
  Claim C5 fails on the code in the same two ways. A long recorded by \<open>create_trade\<close>, of
  side \<open>BUY\<close>, with stop-loss 95 is still open after a cycle at the price 90, and a short
  recorded by it, of side \<open>SELL\<close>, with take-profit 90 is still open after a cycle at the
  price 90. And with the synchronous client a long with stop-loss 95 is still open after a
  cycle, whatever the market price is: the ticker was asked twice and gave no price.
\<close>

theorem recorded_position_never_triggers:
  "map t_side (trade_executions
       (create_trade 1 1 1 ''BTCUSDT'' ''long'' 100 2 (recording_store (Some 95) None))) = [''BUY'']
   \<and> map t_status
         (trade_executions (db (trading_cycle (example_ccxt (Inr []) (Inr (Some 90)))
            (example_world
               (create_trade 1 1 1 ''BTCUSDT'' ''long'' 100 2 (recording_store (Some 95) None))))))
       = [''open'']
   \<and> map t_side (trade_executions
       (create_trade 1 1 1 ''BTCUSDT'' ''short'' 100 2 (recording_store None (Some 90)))) = [''SELL'']
   \<and> map t_status
         (trade_executions (db (trading_cycle (example_ccxt (Inr []) (Inr (Some 90)))
            (example_world
               (create_trade 1 1 1 ''BTCUSDT'' ''short'' 100 2 (recording_store None (Some 90)))))))
       = [''open'']
   \<and> map t_status
         (trade_executions (db (trading_cycle synchronous_ccxt
            (example_world (example_store [example_signal ''processed'' (Some 95) None]
                              [example_trade 1 ''long'' ''open''])))))
       = [''open'']
   \<and> calls (trading_cycle synchronous_ccxt
            (example_world (example_store [example_signal ''processed'' (Some 95) None]
                              [example_trade 1 ''long'' ''open''])))
       = [FetchTicker ''binance'' ''BTCUSDT'', FetchTicker ''binance'' ''BTCUSDT'']"
  by (simp add: cycle_eval record_eval)

end
